theory Spec2Isabelle
  imports Main "HOL-Library.Sublist" "HOL-Library.AList" "HOL-Library.Word"
begin

section \<open>Path joining (\<^verbatim>\<open>path.join\<close> of the POSIX flavour)\<close>

text \<open>
  \<^verbatim>\<open>server.js\<close> builds every file-system path with \<^verbatim>\<open>path.join\<close>.  The function
  concatenates its non-empty arguments with a slash and normalises the result: empty
  segments and \<^verbatim>\<open>.\<close> are dropped, \<^verbatim>\<open>..\<close> removes the segment before it, and above the root of
  an absolute path \<^verbatim>\<open>..\<close> is ignored, while a relative path keeps leading \<^verbatim>\<open>..\<close> segments.
  The model works on the list of segments between slashes; \<open>res\<close> is the stack of segments
  kept so far, the most recent one first.
\<close>

fun split_sep :: "string \<Rightarrow> string list" where
  "split_sep [] = [[]]"
| "split_sep (c # cs) =
     (if c = CHR ''/'' then [] # split_sep cs
      else (case split_sep cs of [] \<Rightarrow> [[c]] | s # ss \<Rightarrow> (c # s) # ss))"

fun join_sep :: "string list \<Rightarrow> string" where
  "join_sep [] = []"
| "join_sep [s] = s"
| "join_sep (s # t # ss) = s @ CHR ''/'' # join_sep (t # ss)"

definition seg_step :: "bool \<Rightarrow> string \<Rightarrow> string list \<Rightarrow> string list" where
  "seg_step allowAboveRoot seg res =
     (if seg = [] \<or> seg = ''.'' then res
      else if seg = ''..'' then
        (case res of
           [] \<Rightarrow> if allowAboveRoot then [''..''] else []
         | seg' # rest \<Rightarrow>
             if seg' = ''..'' then (if allowAboveRoot then ''..'' # res else res) else rest)
      else seg # res)"

definition normalizeString :: "bool \<Rightarrow> string \<Rightarrow> string list" where
  "normalizeString allowAboveRoot p = fold (seg_step allowAboveRoot) (split_sep p) []"

definition isAbsolute :: "string \<Rightarrow> bool" where
  "isAbsolute p = (case p of [] \<Rightarrow> False | c # _ \<Rightarrow> c = CHR ''/'')"

definition trailingSeparator :: "string \<Rightarrow> bool" where
  "trailingSeparator p = (p \<noteq> [] \<and> last p = CHR ''/'')"

definition render :: "bool \<Rightarrow> bool \<Rightarrow> string list \<Rightarrow> string" where
  "render absolute trailing res =
     (if res = [] then (if absolute then ''/'' else if trailing then ''./'' else ''.'')
      else (if absolute then ''/'' else []) @ join_sep (rev res)
           @ (if trailing then ''/'' else []))"

definition normalize_path :: "string \<Rightarrow> string" where
  "normalize_path p =
     (if p = [] then ''.''
      else render (isAbsolute p) (trailingSeparator p)
             (normalizeString (\<not> isAbsolute p) p))"

definition path_join :: "string list \<Rightarrow> string" where
  "path_join args =
     (let joined = filter (\<lambda>arg. arg \<noteq> []) args
      in if joined = [] then ''.'' else normalize_path (join_sep joined))"

text \<open>
  The directory components of a path, and containment of one path in a directory: the
  path lies inside the directory when the directory's components are the first components
  of the path.
\<close>

definition path_segments :: "string \<Rightarrow> string list" where
  "path_segments p = filter (\<lambda>s. s \<noteq> [] \<and> s \<noteq> ''.'') (split_sep p)"

definition inside :: "string \<Rightarrow> string \<Rightarrow> bool" where
  "inside dir p = prefix (path_segments dir) (path_segments p)"


section \<open>Tokens (\<^verbatim>\<open>jsonwebtoken\<close>)\<close>

text \<open>
  The payload that \<^verbatim>\<open>/api/login\<close> signs, with the two time claims the library adds
  (both in seconds).  A token string on the wire is either a well-formed compact token,
  carrying a payload and a signature, or some other string.  The signing algorithm is a
  parameter of the environment (\<open>hmac\<close>): nothing below depends on which function it is.
\<close>

record payload =
  dn :: string
  homeDirectory :: string
  uid :: string
  iat :: nat
  exp :: nat

datatype jwt_string = Garbled string | Compact payload string

datatype jwt_error = JsonWebTokenError | TokenExpiredError

record ldap_user =
  user_dn :: string
  user_uid :: "string option"

text \<open>
  The process environment: \<^verbatim>\<open>__dirname\<close>, \<^verbatim>\<open>process.env.JWT_SECRET\<close>, the signature
  function, the rendering of a clock value by \<^verbatim>\<open>toISOString\<close>, and the directory service
  (\<^verbatim>\<open>authenticate\<close> of \<^verbatim>\<open>ldap-authentication\<close>, which yields the user entry or throws an
  error, given here by its \<^verbatim>\<open>toString()\<close>).
\<close>

record env =
  dirname :: string
  JWT_SECRET :: string
  hmac :: "string \<Rightarrow> payload \<Rightarrow> string"
  toISOString :: "nat \<Rightarrow> string"
  authenticate :: "string \<Rightarrow> string \<Rightarrow> string + ldap_user"

text \<open>\<^verbatim>\<open>jwt.sign(payload, secret, { expiresIn: "1h" })\<close> at clock value \<open>t\<close> (milliseconds).\<close>

definition jwt_sign :: "env \<Rightarrow> string \<Rightarrow> string \<Rightarrow> string \<Rightarrow> nat \<Rightarrow> jwt_string" where
  "jwt_sign e d h u t =
     (let c = \<lparr>dn = d, homeDirectory = h, uid = u, iat = t div 1000, exp = t div 1000 + 3600\<rparr>
      in Compact c (hmac e (JWT_SECRET e) c))"

text \<open>
  \<^verbatim>\<open>jwt.verify(token, secret)\<close>: a missing or malformed token and a wrong signature throw
  \<^verbatim>\<open>JsonWebTokenError\<close>; the signature is checked before the expiry, and a token whose
  \<^verbatim>\<open>exp\<close> is not after the clock (in whole seconds) throws \<^verbatim>\<open>TokenExpiredError\<close>.
\<close>

definition jwt_verify :: "env \<Rightarrow> jwt_string option \<Rightarrow> nat \<Rightarrow> jwt_error + payload" where
  "jwt_verify e token t =
     (case token of
        None \<Rightarrow> Inl JsonWebTokenError
      | Some (Garbled s) \<Rightarrow> Inl JsonWebTokenError
      | Some (Compact c sg) \<Rightarrow>
          if sg \<noteq> hmac e (JWT_SECRET e) c then Inl JsonWebTokenError
          else if exp c \<le> t div 1000 then Inl TokenExpiredError
          else Inr c)"

section \<open>Responses\<close>

type_synonym byte = "8 word"

datatype jval =
    JStr string
  | JBool bool
  | JText "nat list"
  | JToken jwt_string
  | JUser ldap_user string
  | JNames "string list"

datatype body = Json "(string \<times> jval) list" | Attachment "byte list"

record response =
  status :: nat
  body :: body

text \<open>
  What a route does with a request: it sends a response, or an exception leaves the route
  (or an error is handed to \<^verbatim>\<open>next\<close>) and the route sends nothing of its own.
\<close>

datatype exn = AuditAppendFailed | FsError | TypeError

datatype outcome = Sent response | Errored exn

section \<open>The file system, the audit file and the clock\<close>

text \<open>
  Regular files with their bytes and directories, both keyed by the path string that
  \<open>path_join\<close> produces; the texts appended to \<^verbatim>\<open>audit/record.txt\<close>, one for each
  \<^verbatim>\<open>appendFileSync\<close>, kept apart from the other files; whether appending to the audit file
  succeeds; and \<^verbatim>\<open>Date.now()\<close>.
\<close>

record state =
  files :: "(string \<times> byte list) list"
  dirs :: "string list"
  auditLog :: "string list"
  auditWritable :: bool
  now :: nat

definition fs_parent :: "string \<Rightarrow> string" where
  "fs_parent p =
     (let d = join_sep (butlast (split_sep p))
      in if d = [] then (if isAbsolute p then ''/'' else ''.'') else d)"

definition fs_ancestors :: "string \<Rightarrow> string list" where
  "fs_ancestors p =
     map (\<lambda>segs. let d = join_sep segs
                  in if d = [] then (if isAbsolute p then ''/'' else ''.'') else d)
         (prefixes (split_sep p))"

text \<open>
  Every call of \<^verbatim>\<open>fs\<close> validates its path before anything else: a path that holds a NUL
  character makes the call throw a \<^verbatim>\<open>TypeError\<close> at once, the calls that take a callback
  included (the callback is never called); \<^verbatim>\<open>existsSync\<close> alone answers \<^verbatim>\<open>false\<close>.  The
  other failures are \<open>FsError\<close>: thrown by the synchronous calls, given to the callback or
  the promise by the others.
\<close>

definition nul_free :: "string \<Rightarrow> bool" where
  "nul_free p = (CHR 0x00 \<notin> set p)"

definition existsSync :: "state \<Rightarrow> string \<Rightarrow> bool" where
  "existsSync st p = (nul_free p \<and> (p \<in> set (dirs st) \<or> map_of (files st) p \<noteq> None))"

definition mkdirp :: "string \<Rightarrow> state \<Rightarrow> exn + state" where
  "mkdirp p st =
     (if \<not> nul_free p then Inl TypeError
      else if list_ex (\<lambda>d. map_of (files st) d \<noteq> None) (fs_ancestors p) then Inl FsError
      else Inr (st\<lparr>dirs := fold List.insert (fs_ancestors p) (dirs st)\<rparr>))"

definition writeFile :: "bool \<Rightarrow> string \<Rightarrow> byte list \<Rightarrow> state \<Rightarrow> exn + state" where
  "writeFile exclusive p content st =
     (if \<not> nul_free p then Inl TypeError
      else if fs_parent p \<in> set (dirs st) \<and> p \<notin> set (dirs st)
         \<and> \<not> trailingSeparator p
         \<and> (if exclusive then map_of (files st) p = None else True)
      then Inr (st\<lparr>files := AList.update p content (files st)\<rparr>)
      else Inl FsError)"

definition unlink :: "string \<Rightarrow> state \<Rightarrow> exn + state" where
  "unlink p st =
     (if \<not> nul_free p then Inl TypeError
      else (case map_of (files st) p of
              None \<Rightarrow> Inl FsError
            | Some content \<Rightarrow> Inr (st\<lparr>files := AList.delete p (files st)\<rparr>)))"

definition readFile :: "string \<Rightarrow> state \<Rightarrow> exn + byte list" where
  "readFile p st =
     (if \<not> nul_free p then Inl TypeError
      else (case map_of (files st) p of None \<Rightarrow> Inl FsError | Some content \<Rightarrow> Inr content))"

definition readdir :: "string \<Rightarrow> state \<Rightarrow> exn + string list" where
  "readdir d st =
     (if \<not> nul_free d then Inl TypeError
      else if d \<in> set (dirs st)
      then Inr (map (\<lambda>p. last (split_sep p))
                  (filter (\<lambda>p. fs_parent p = d \<and> p \<noteq> d) (map fst (files st) @ dirs st)))
      else Inl FsError)"

text \<open>\<^verbatim>\<open>`${Date.now()}`\<close>: the decimal digits of the clock value.\<close>

fun string_of_nat :: "nat \<Rightarrow> string" where
  "string_of_nat n =
     (if n < 10 then [''0123456789'' ! n]
      else string_of_nat (n div 10) @ [''0123456789'' ! (n mod 10)])"

declare string_of_nat.simps [simp del]

text \<open>
  Reading a file as \<^verbatim>\<open>"utf8"\<close> decodes its bytes to code points; every byte that is not
  part of a well-formed sequence becomes U+FFFD, one replacement for each maximal
  ill-formed prefix.
\<close>

definition lead :: "byte \<Rightarrow> (nat \<times> nat \<times> nat \<times> nat) option" where
  "lead b =
     (let n = unat b in
      if 0xC2 \<le> n \<and> n \<le> 0xDF then Some (1, 0x80, 0xBF, n - 0xC0)
      else if 0xE0 \<le> n \<and> n \<le> 0xEF then
        Some (2, if n = 0xE0 then 0xA0 else 0x80, if n = 0xED then 0x9F else 0xBF, n - 0xE0)
      else if 0xF0 \<le> n \<and> n \<le> 0xF4 then
        Some (3, if n = 0xF0 then 0x90 else 0x80, if n = 0xF4 then 0x8F else 0xBF, n - 0xF0)
      else None)"

text \<open>
  \<open>continuation needed lower upper acc bs\<close> reads up to \<open>needed\<close> continuation bytes, the
  first within \<open>lower..upper\<close>; it returns how many bytes it consumed and the code point,
  if the sequence was complete.
\<close>

fun continuation :: "nat \<Rightarrow> nat \<Rightarrow> nat \<Rightarrow> nat \<Rightarrow> byte list \<Rightarrow> nat \<times> nat option" where
  "continuation 0 lower upper acc bs = (0, Some acc)"
| "continuation (Suc k) lower upper acc [] = (0, None)"
| "continuation (Suc k) lower upper acc (c # cs) =
     (if lower \<le> unat c \<and> unat c \<le> upper
      then (case continuation k 0x80 0xBF (acc * 64 + (unat c - 0x80)) cs of
              (m, r) \<Rightarrow> (Suc m, r))
      else (0, None))"

function utf8_decode :: "byte list \<Rightarrow> nat list" where
  "utf8_decode [] = []"
| "utf8_decode (b # bs) =
     (if unat b < 0x80 then unat b # utf8_decode bs
      else (case lead b of
              None \<Rightarrow> 0xFFFD # utf8_decode bs
            | Some (needed, lower, upper, acc) \<Rightarrow>
                (case continuation needed lower upper acc bs of
                   (m, r) \<Rightarrow>
                     (case r of None \<Rightarrow> 0xFFFD | Some cp \<Rightarrow> cp) # utf8_decode (drop m bs))))"
  by pat_completeness auto
termination
  by (relation "measure length") auto

section \<open>The server (\<^verbatim>\<open>backend/server.js\<close>)\<close>

subsection \<open>\<^verbatim>\<open>jwtMiddleware\<close>\<close>

text \<open>
  The \<^verbatim>\<open>Authorization\<close> header is given as the list of its parts between single spaces
  (\<^verbatim>\<open>authHeader.split(" ")\<close>), \<open>None\<close> when the header is absent or empty; the token
  is the part at index 1, undefined when there is none.
\<close>

definition bearer :: "jwt_string list \<Rightarrow> jwt_string option" where
  "bearer parts = (if 1 < length parts then Some (parts ! 1) else None)"

definition jwtMiddleware :: "env \<Rightarrow> nat \<Rightarrow> jwt_string list option \<Rightarrow> response + payload" where
  "jwtMiddleware e t authHeader =
     (case authHeader of
        None \<Rightarrow>
          Inl \<lparr>status = 401, body = Json [(''message'', JStr ''Authorization header is missing'')]\<rparr>
      | Some parts \<Rightarrow>
          (case jwt_verify e (bearer parts) t of
             Inl error \<Rightarrow>
               Inl \<lparr>status = 401, body = Json [(''message'', JStr ''Invalid or missing token'')]\<rparr>
           | Inr decoded \<Rightarrow> Inr decoded))"

subsection \<open>\<^verbatim>\<open>audit\<close> and \<^verbatim>\<open>auditMiddleware\<close>\<close>

definition auditMessage :: "env \<Rightarrow> nat \<Rightarrow> string \<Rightarrow> string option \<Rightarrow> string \<Rightarrow> string" where
  "auditMessage e t action filename user_id =
     (case filename of
        None \<Rightarrow> toISOString e t @ '' - '' @ action @ '' by '' @ user_id @ [CHR 0x0A]
      | Some f \<Rightarrow>
          toISOString e t @ '' - '' @ action @ '' by '' @ user_id @ '' on file '' @ f
          @ [CHR 0x0A])"

text \<open>
  \<^verbatim>\<open>fs.appendFileSync\<close> throws when the write fails; \<^verbatim>\<open>audit\<close> does not catch it.  (The
  source declares \<^verbatim>\<open>auditmessage\<close> and assigns \<^verbatim>\<open>auditMessage\<close>; the module is not in strict
  mode, so the assignment makes a global and the line is appended as written.)
\<close>

definition audit :: "env \<Rightarrow> string \<Rightarrow> string option \<Rightarrow> string \<Rightarrow> state \<Rightarrow> exn + state" where
  "audit e action filename user_id st =
     (if auditWritable st
      then Inr (st\<lparr>auditLog := auditLog st @ [auditMessage e (now st) action filename user_id]\<rparr>)
      else Inl AuditAppendFailed)"

text \<open>
  \<open>param\<close> is \<^verbatim>\<open>req.params.filename\<close> and \<open>file\<close> is \<^verbatim>\<open>req.file.filename\<close>, each \<open>None\<close>
  when undefined.
\<close>

definition auditMiddleware ::
  "env \<Rightarrow> string \<Rightarrow> string option \<Rightarrow> string option \<Rightarrow> payload \<Rightarrow> state \<Rightarrow> exn + state" where
  "auditMiddleware e action param file user st =
     (let filename = (case param of None \<Rightarrow> file | Some f \<Rightarrow> if f = [] then file else Some f)
      in audit e action filename (uid user) st)"

subsection \<open>\<^verbatim>\<open>POST /api/login\<close>\<close>

definition instructionsContent :: "byte list" where
  "instructionsContent =
     map (\<lambda>c. of_nat (of_char c))
       (''General information about this project:'' @ [CHR 0x0A, CHR 0x0A] @ ''...'')"

text \<open>
  The body of \<^verbatim>\<open>if (!fs.existsSync(userHomeDir)) { ... }\<close>: the error thrown, if any, and
  the file system as the calls made so far have left it.
\<close>

definition provision :: "string \<Rightarrow> state \<Rightarrow> exn option \<times> state" where
  "provision userHomeDir st =
     (if existsSync st userHomeDir then (None, st)
      else (case mkdirp userHomeDir st of
              Inl err \<Rightarrow> (Some err, st)
            | Inr st1 \<Rightarrow>
                (case mkdirp (path_join [userHomeDir, ''uploads'']) st1 of
                   Inl err \<Rightarrow> (Some err, st1)
                 | Inr st2 \<Rightarrow>
                     (case writeFile True
                             (path_join [userHomeDir, ''/uploads/'', ''instructions.txt''])
                             instructionsContent st2 of
                        Inl err \<Rightarrow> (Some err, st2)
                      | Inr st3 \<Rightarrow> (None, st3)))))"

definition internalServerError :: response where
  "internalServerError = \<lparr>status = 500, body = Json [(''error'', JStr ''Internal Server Error'')]\<rparr>"

definition login_success :: "env \<Rightarrow> ldap_user \<Rightarrow> state \<Rightarrow> outcome \<times> state" where
  "login_success e user st =
     (case user_uid user of
        None \<Rightarrow> (Sent \<lparr>status = 500, body = Json [(''error'', JStr ''User UID is undefined'')]\<rparr>, st)
      | Some u \<Rightarrow>
          if u = [] then
            (Sent \<lparr>status = 500, body = Json [(''error'', JStr ''User UID is undefined'')]\<rparr>, st)
          else
            (let userHomeDir = path_join [dirname e, ''/home/'', u]
             in case provision userHomeDir st of
                  (Some err, st1) \<Rightarrow> (Sent internalServerError, st1)
                | (None, st1) \<Rightarrow>
                    (let token = jwt_sign e (user_dn user) userHomeDir u (now st1)
                     in case audit e ''login'' None u st1 of
                          Inl err \<Rightarrow> (Sent internalServerError, st1)
                        | Inr st2 \<Rightarrow>
                            (Sent \<lparr>status = 200,
                                   body = Json [(''success'', JBool True),
                                                (''message'', JStr ''Authenticated successfully''),
                                                (''user'', JUser user userHomeDir),
                                                (''token'', JToken token)]\<rparr>, st2))))"

definition login_failure :: "env \<Rightarrow> string \<Rightarrow> string \<Rightarrow> state \<Rightarrow> outcome \<times> state" where
  "login_failure e username error st =
     (case audit e ''failed login'' None username st of
        Inl err \<Rightarrow> (Errored err, st)
      | Inr st1 \<Rightarrow>
          (Sent \<lparr>status = 500,
                 body = Json [(''success'', JBool False),
                              (''message'', JStr ''Authentication failed''),
                              (''error'', JStr error)]\<rparr>, st1))"

definition required :: response where
  "required = \<lparr>status = 400,
               body = Json [(''success'', JBool False),
                            (''message'', JStr ''Username and password are required.'')]\<rparr>"

definition login :: "env \<Rightarrow> string option \<Rightarrow> string option \<Rightarrow> state \<Rightarrow> outcome \<times> state" where
  "login e username password st =
     (case username of
        None \<Rightarrow> (Sent required, st)
      | Some u \<Rightarrow>
          (case password of
             None \<Rightarrow> (Sent required, st)
           | Some p \<Rightarrow>
               if u = [] \<or> p = [] then (Sent required, st)
               else (case authenticate e u p of
                       Inr user \<Rightarrow> login_success e user st
                     | Inl error \<Rightarrow> login_failure e u error st)))"

subsection \<open>\<^verbatim>\<open>POST /upload\<close>\<close>

text \<open>
  \<^verbatim>\<open>upload.single("file")\<close> with the disk storage of the source: the file part, if the
  request has one, is written to \<^verbatim>\<open>destination\<close> joined with \<^verbatim>\<open>filename\<close>, and
  \<^verbatim>\<open>req.file.filename\<close> is the stored name.  A failed write is handed to \<^verbatim>\<open>next\<close> as an
  error, so the rest of the route is skipped.

  A part is given by the filename of its \<^verbatim>\<open>Content-Disposition\<close> header and its bytes.  The
  multipart parser keeps of that filename what follows the last slash or backslash, and
  nothing of \<^verbatim>\<open>.\<close> and \<^verbatim>\<open>..\<close>: this is \<^verbatim>\<open>file.originalname\<close>.  A part whose name is
  empty after that is skipped, and \<^verbatim>\<open>req.file\<close> stays undefined.
\<close>

definition basename :: "string \<Rightarrow> string" where
  "basename p =
     (let b = rev (takeWhile (\<lambda>c. c \<noteq> CHR ''/'' \<and> c \<noteq> CHR 0x5C) (rev p))
      in if b = ''..'' \<or> b = ''.'' then [] else b)"

definition destination :: "payload \<Rightarrow> string" where
  "destination user = path_join [homeDirectory user, ''uploads'']"

definition filename :: "nat \<Rightarrow> string \<Rightarrow> string" where
  "filename t originalname = string_of_nat t @ ''-'' @ originalname"

definition upload_single ::
  "payload \<Rightarrow> (string \<times> byte list) option \<Rightarrow> state \<Rightarrow> exn + string option \<times> state" where
  "upload_single user part st =
     (case part of
        None \<Rightarrow> Inr (None, st)
      | Some (name, content) \<Rightarrow>
          (let originalname = basename name
           in if originalname = [] then Inr (None, st)
              else (case writeFile False
                           (path_join [destination user, filename (now st) originalname])
                           content st of
                      Inl err \<Rightarrow> Inl err
                    | Inr st1 \<Rightarrow> Inr (Some (filename (now st) originalname), st1))))"

definition upload_handler :: "string option \<Rightarrow> outcome" where
  "upload_handler file =
     (case file of
        None \<Rightarrow> Errored TypeError
      | Some f \<Rightarrow>
          Sent \<lparr>status = 200,
                body = Json [(''message'', JStr ''File uploaded successfully''),
                             (''filename'', JStr f)]\<rparr>)"

definition upload_route ::
  "env \<Rightarrow> jwt_string list option \<Rightarrow> (string \<times> byte list) option \<Rightarrow> state \<Rightarrow> outcome \<times> state" where
  "upload_route e authHeader part st =
     (case jwtMiddleware e (now st) authHeader of
        Inl r \<Rightarrow> (Sent r, st)
      | Inr user \<Rightarrow>
          (case upload_single user part st of
             Inl err \<Rightarrow> (Errored err, st)
           | Inr (file, st1) \<Rightarrow>
               (case auditMiddleware e ''upload'' None file user st1 of
                  Inl err \<Rightarrow> (Errored err, st1)
                | Inr st2 \<Rightarrow> (upload_handler file, st2))))"

subsection \<open>\<^verbatim>\<open>GET /files\<close>\<close>

definition files_dir :: "env \<Rightarrow> payload \<Rightarrow> string" where
  "files_dir e user = path_join [dirname e, ''/home/'', uid user, ''uploads'']"

definition files_handler :: "env \<Rightarrow> jwt_string list option \<Rightarrow> state \<Rightarrow> response" where
  "files_handler e authHeader st =
     (case authHeader of
        None \<Rightarrow> \<lparr>status = 500, body = Json [(''error'', JStr ''Error listing files'')]\<rparr>
      | Some parts \<Rightarrow>
          (case jwt_verify e (bearer parts) (now st) of
             Inl error \<Rightarrow> \<lparr>status = 500, body = Json [(''error'', JStr ''Error listing files'')]\<rparr>
           | Inr user \<Rightarrow>
               (case readdir (files_dir e user) st of
                  Inl error \<Rightarrow>
                    \<lparr>status = 500, body = Json [(''error'', JStr ''Error listing files'')]\<rparr>
                | Inr names \<Rightarrow> \<lparr>status = 200, body = Json [(''files'', JNames names)]\<rparr>)))"

definition files_route :: "env \<Rightarrow> jwt_string list option \<Rightarrow> state \<Rightarrow> outcome \<times> state" where
  "files_route e authHeader st =
     (case jwtMiddleware e (now st) authHeader of
        Inl r \<Rightarrow> (Sent r, st)
      | Inr user \<Rightarrow> (Sent (files_handler e authHeader st), st))"

subsection \<open>\<^verbatim>\<open>DELETE /delete/:filename\<close>, \<^verbatim>\<open>GET /download/:filename\<close>, \<^verbatim>\<open>GET /view/:filename\<close>\<close>

text \<open>
  The three handlers build the path the same way.  The parameter is the decoded path
  segment of the request, so it can hold any characters, slashes included
  (\<^verbatim>\<open>%2F\<close> in the URL).
\<close>

definition filePath :: "payload \<Rightarrow> string \<Rightarrow> string" where
  "filePath user param = path_join [homeDirectory user, ''uploads'', param]"

text \<open>
  \<^verbatim>\<open>fs.unlink(filePath, callback)\<close>: the callback answers an error with status 500 and
  success with the acknowledgment.  When the path holds a NUL, \<^verbatim>\<open>fs.unlink\<close> throws before
  there is a callback, and the handler has no \<^verbatim>\<open>try\<close>: the exception leaves it.
\<close>

definition delete_handler :: "payload \<Rightarrow> string \<Rightarrow> state \<Rightarrow> outcome \<times> state" where
  "delete_handler user param st =
     (case unlink (filePath user param) st of
        Inl err \<Rightarrow>
          if err = TypeError then (Errored TypeError, st) else (Sent internalServerError, st)
      | Inr st1 \<Rightarrow>
          (Sent \<lparr>status = 200, body = Json [(''message'', JStr ''File deleted successfully'')]\<rparr>,
           st1))"

text \<open>
  \<^verbatim>\<open>res.download(filePath, callback)\<close>, as Express 4 and its \<^verbatim>\<open>send\<close> module serve a
  path given without a root.  The path is first resolved (\<^verbatim>\<open>path.resolve\<close>: normalised,
  and a trailing slash dropped; a relative path is taken from the working directory, to
  which the relative keys of the file system of this model refer as well, so that it is
  kept relative here).  A path with a NUL is refused (400), and so is a path whose last
  segment is a dotfile (404); otherwise the file is streamed as an attachment, or the
  failure to read it is the error.  Every error reaches the callback of the source, which
  answers with status 500.
\<close>

definition path_resolve :: "string \<Rightarrow> string" where
  "path_resolve p = render (isAbsolute p) False (normalizeString (\<not> isAbsolute p) p)"

definition dotfile :: "string \<Rightarrow> bool" where
  "dotfile part = (1 < length part \<and> hd part = CHR ''.'')"

definition download_handler :: "payload \<Rightarrow> string \<Rightarrow> state \<Rightarrow> outcome \<times> state" where
  "download_handler user param st =
     (let fullPath = path_resolve (filePath user param)
      in if \<not> nul_free fullPath then (Sent internalServerError, st)
         else if dotfile (last (split_sep fullPath)) then (Sent internalServerError, st)
         else (case readFile fullPath st of
                 Inl err \<Rightarrow> (Sent internalServerError, st)
               | Inr content \<Rightarrow> (Sent \<lparr>status = 200, body = Attachment content\<rparr>, st)))"

text \<open>
  \<^verbatim>\<open>fs.readFileSync(filePath, "utf8")\<close> inside \<^verbatim>\<open>try\<close>: every exception, that for a NUL in
  the path too, is answered with status 500.
\<close>

definition view_handler :: "payload \<Rightarrow> string \<Rightarrow> state \<Rightarrow> outcome \<times> state" where
  "view_handler user param st =
     (case readFile (filePath user param) st of
        Inl error \<Rightarrow>
          (Sent \<lparr>status = 500, body = Json [(''error'', JStr ''Error reading file'')]\<rparr>, st)
      | Inr content \<Rightarrow>
          (Sent \<lparr>status = 200, body = Json [(''content'', JText (utf8_decode content))]\<rparr>, st))"

text \<open>
  A route of the shape \<^verbatim>\<open>jwtMiddleware, auditMiddleware(action), handler\<close>, as
  \<^verbatim>\<open>/delete\<close>, \<^verbatim>\<open>/download\<close> and \<^verbatim>\<open>/view\<close> are registered.
\<close>

definition audited_route ::
  "string \<Rightarrow> (payload \<Rightarrow> string \<Rightarrow> state \<Rightarrow> outcome \<times> state)
   \<Rightarrow> env \<Rightarrow> jwt_string list option \<Rightarrow> string \<Rightarrow> state \<Rightarrow> outcome \<times> state" where
  "audited_route action handler e authHeader param st =
     (case jwtMiddleware e (now st) authHeader of
        Inl r \<Rightarrow> (Sent r, st)
      | Inr user \<Rightarrow>
          (case auditMiddleware e action (Some param) None user st of
             Inl err \<Rightarrow> (Errored err, st)
           | Inr st1 \<Rightarrow> handler user param st1))"

definition delete_route :: "env \<Rightarrow> jwt_string list option \<Rightarrow> string \<Rightarrow> state \<Rightarrow> outcome \<times> state" where
  "delete_route = audited_route ''delete'' delete_handler"

definition download_route :: "env \<Rightarrow> jwt_string list option \<Rightarrow> string \<Rightarrow> state \<Rightarrow> outcome \<times> state" where
  "download_route = audited_route ''download'' download_handler"

definition view_route :: "env \<Rightarrow> jwt_string list option \<Rightarrow> string \<Rightarrow> state \<Rightarrow> outcome \<times> state" where
  "view_route = audited_route ''view'' view_handler"

section \<open>Notions used in the statements and proofs\<close>

text \<open>
  A text that is one line of the audit file: it ends with a newline and has no other.
  A name that is one ordinary path segment: not empty, not \<^verbatim>\<open>.\<close> or \<^verbatim>\<open>..\<close>, and without
  a slash.
\<close>

definition single_line :: "string \<Rightarrow> bool" where
  "single_line text =
     (text \<noteq> [] \<and> last text = CHR 0x0A \<and> CHR 0x0A \<notin> set (butlast text))"

definition simple_name :: "string \<Rightarrow> bool" where
  "simple_name s = (s \<noteq> [] \<and> s \<noteq> ''.'' \<and> s \<noteq> ''..'' \<and> CHR ''/'' \<notin> set s)"

text \<open>
  The invariant of the stack of \<open>normalizeString\<close>: segments are ordinary, except that
  \<^verbatim>\<open>..\<close> segments may sit at the bottom of the stack of a relative path.
\<close>

fun stack_ok :: "bool \<Rightarrow> string list \<Rightarrow> bool" where
  "stack_ok a [] = True"
| "stack_ok a (s # rest) =
     (s \<noteq> [] \<and> s \<noteq> ''.'' \<and> CHR ''/'' \<notin> set s
      \<and> (s = ''..'' \<longrightarrow> a \<and> (\<forall>t\<in>set rest. t = ''..'')) \<and> stack_ok a rest)"

text \<open>Whether the joined arguments form an absolute path, and the stack they leave.\<close>

definition abs_of :: "string list \<Rightarrow> bool" where
  "abs_of parts = isAbsolute (join_sep (filter (\<lambda>a. a \<noteq> []) parts))"

definition join_stack :: "string list \<Rightarrow> string list" where
  "join_stack parts = fold (seg_step (\<not> abs_of parts)) (concat (map split_sep parts)) []"

subsection \<open>An example deployment\<close>

text \<open>
  A directory service that knows \<^verbatim>\<open>alice\<close> and \<^verbatim>\<open>bob\<close>, a toy signature function, a
  clock that is rendered by its decimal digits, and a file system in which both users are
  provisioned and \<^verbatim>\<open>alice\<close> has stored one file.  The tokens are minted at clock value 0.
\<close>

definition example_env :: env where
  "example_env =
     \<lparr>dirname = ''/srv/app'',
      JWT_SECRET = ''secret'',
      hmac = (\<lambda>k c. k @ ''.'' @ uid c @ ''.'' @ homeDirectory c @ ''.'' @ string_of_nat (exp c)),
      toISOString = string_of_nat,
      authenticate = (\<lambda>u p.
        if u = ''alice'' \<and> p = ''correct-pw''
        then Inr \<lparr>user_dn = ''uid=alice,dc=example'', user_uid = Some ''alice''\<rparr>
        else if u = ''bob'' \<and> p = ''hunter2''
        then Inr \<lparr>user_dn = ''uid=bob,dc=example'', user_uid = Some ''bob''\<rparr>
        else if u = ''alice'' \<or> u = ''bob'' then Inl ''InvalidCredentialsError''
        else Inl ''LdapAuthenticationError: user not found or usernameAttribute is wrong'')\<rparr>"

definition alice_payload :: payload where
  "alice_payload =
     \<lparr>dn = ''uid=alice,dc=example'', homeDirectory = ''/srv/app/home/alice'', uid = ''alice'',
      iat = 0, exp = 3600\<rparr>"

definition bob_payload :: payload where
  "bob_payload =
     \<lparr>dn = ''uid=bob,dc=example'', homeDirectory = ''/srv/app/home/bob'', uid = ''bob'',
      iat = 0, exp = 3600\<rparr>"

definition alice_token :: jwt_string where
  "alice_token = jwt_sign example_env ''uid=alice,dc=example'' ''/srv/app/home/alice'' ''alice'' 0"

definition bob_token :: jwt_string where
  "bob_token = jwt_sign example_env ''uid=bob,dc=example'' ''/srv/app/home/bob'' ''bob'' 0"

definition alice_header :: "jwt_string list option" where
  "alice_header = Some [Garbled ''Bearer'', alice_token]"

definition bob_header :: "jwt_string list option" where
  "bob_header = Some [Garbled ''Bearer'', bob_token]"

definition example_state :: state where
  "example_state =
     \<lparr>files = [(''/srv/app/home/alice/uploads/notes.txt'', [0x68, 0x69])],
      dirs = [''/srv/app/home/alice'', ''/srv/app/home/alice/uploads'',
              ''/srv/app/home/bob'', ''/srv/app/home/bob/uploads''],
      auditLog = [],
      auditWritable = True,
      now = 5000\<rparr>"


text \<open>The same deployment when appending to the audit file fails.\<close>

definition audit_down_state :: state where
  "audit_down_state = example_state\<lparr>auditWritable := False\<rparr>"

section \<open>Properties of \<open>path_join\<close>\<close>

lemma split_sep_ne [simp]: "split_sep s \<noteq> []"
  by (induction s) (auto split: list.splits)

lemma split_sep_no_slash: "seg \<in> set (split_sep s) \<Longrightarrow> CHR ''/'' \<notin> set seg"
  by (induction s arbitrary: seg) (auto split: list.splits if_splits)

lemma split_sep_append: "split_sep (a @ CHR ''/'' # b) = split_sep a @ split_sep b"
  by (induction a) (auto split: list.splits)

lemma split_sep_id: "CHR ''/'' \<notin> set s \<Longrightarrow> split_sep s = [s]"
  by (induction s) auto

lemma split_join_parts: "parts \<noteq> [] \<Longrightarrow> split_sep (join_sep parts) = concat (map split_sep parts)"
  by (induction parts rule: join_sep.induct) (simp_all add: split_sep_append)

lemma split_join_segs:
  "segs \<noteq> [] \<Longrightarrow> \<forall>s\<in>set segs. CHR ''/'' \<notin> set s \<Longrightarrow> split_sep (join_sep segs) = segs"
  by (induction segs rule: join_sep.induct) (simp_all add: split_sep_append split_sep_id)

lemma stack_ok_step:
  "stack_ok a res \<Longrightarrow> CHR ''/'' \<notin> set seg \<Longrightarrow> stack_ok a (seg_step a seg res)"
  by (cases res; cases a) (simp_all add: seg_step_def)

lemma stack_ok_fold:
  "stack_ok a res \<Longrightarrow> \<forall>s\<in>set segs. CHR ''/'' \<notin> set s \<Longrightarrow> stack_ok a (fold (seg_step a) segs res)"
  by (induction segs arbitrary: res) (simp_all add: stack_ok_step)

lemma stack_ok_normalizeString: "stack_ok a (normalizeString a p)"
  unfolding normalizeString_def
  by (rule stack_ok_fold) (use split_sep_no_slash in auto)

lemma fold_rev_stack: "stack_ok a res \<Longrightarrow> fold (seg_step a) (rev res) [] = res"
proof (induction res)
  case Nil
  then show ?case by simp
next
  case (Cons s rest)
  then have "fold (seg_step a) (rev (s # rest)) [] = seg_step a s rest" by simp
  also have "\<dots> = s # rest"
  proof (cases "s = ''..''")
    case True
    with Cons.prems have "a" and "\<forall>t\<in>set rest. t = ''..''" by simp_all
    then show ?thesis using True by (cases rest) (simp_all add: seg_step_def)
  next
    case False
    then show ?thesis using Cons.prems by (simp add: seg_step_def)
  qed
  finally show ?case .
qed

lemma stack_ok_elems:
  "stack_ok a res \<Longrightarrow> s \<in> set res \<Longrightarrow> s \<noteq> [] \<and> s \<noteq> ''.'' \<and> CHR ''/'' \<notin> set s"
  by (induction res) auto

lemma isAbsolute_append: "p \<noteq> [] \<Longrightarrow> isAbsolute (p @ x) = isAbsolute p"
  by (cases p) (simp_all add: isAbsolute_def)

lemma join_sep_hd:
  "segs \<noteq> [] \<Longrightarrow> hd segs \<noteq> [] \<Longrightarrow> join_sep segs \<noteq> [] \<and> hd (join_sep segs) = hd (hd segs)"
  by (induction segs rule: join_sep.induct) simp_all

lemma isAbsolute_render:
  assumes "stack_ok (\<not> absolute) res"
  shows "render absolute trailing res \<noteq> [] \<and> isAbsolute (render absolute trailing res) = absolute"
proof (cases "res = []")
  case True
  then show ?thesis by (simp add: render_def isAbsolute_def)
next
  case False
  then have ne: "rev res \<noteq> []" by simp
  have "hd (rev res) \<in> set res" using False by (metis hd_in_set ne set_rev)
  with assms have h: "hd (rev res) \<noteq> []" "CHR ''/'' \<notin> set (hd (rev res))"
    using stack_ok_elems by blast+
  from join_sep_hd [OF ne h(1)]
  have j: "join_sep (rev res) \<noteq> []" "hd (join_sep (rev res)) = hd (hd (rev res))" by simp_all
  have "hd (hd (rev res)) \<noteq> CHR ''/''" using h by (cases "hd (rev res)") auto
  with j have "\<not> isAbsolute (join_sep (rev res))"
    by (cases "join_sep (rev res)") (simp_all add: isAbsolute_def)
  with j(1) False show ?thesis
    by (simp add: render_def isAbsolute_append) (simp add: isAbsolute_def)
qed

lemma split_sep_snoc: "split_sep (x @ [CHR ''/'']) = split_sep x @ [[]]"
  using split_sep_append [of x "[]"] by simp

lemma fold_step_empty: "fold (seg_step a) ([] # segs) res = fold (seg_step a) segs res"
  by (simp add: seg_step_def)

lemma split_render:
  assumes "stack_ok a res" and "res \<noteq> []"
  shows "split_sep (render absolute trailing res)
         = (if absolute then [[]] else []) @ rev res @ (if trailing then [[]] else [])"
proof -
  have sj: "split_sep (join_sep (rev res)) = rev res"
    using assms stack_ok_elems by (intro split_join_segs) auto
  have "split_sep (join_sep (rev res) @ [CHR ''/'']) = rev res @ [[]]"
    by (simp only: split_sep_snoc sj)
  with sj show ?thesis using assms(2) by (simp add: render_def)
qed

lemma fold_split_render:
  assumes "stack_ok a res"
  shows "fold (seg_step a) (split_sep (render absolute trailing res)) [] = res"
proof (cases "res = []")
  case True
  then show ?thesis by (simp add: render_def seg_step_def)
next
  case False
  show ?thesis
    by (simp add: split_render [OF assms False] fold_rev_stack [OF assms] seg_step_def)
qed

lemma trailingSeparator_append:
  "trailingSeparator (u @ CHR ''/'' # t) = trailingSeparator (CHR ''/'' # t)"
  by (simp add: trailingSeparator_def)

lemma normalize_absorb:
  assumes "p \<noteq> []"
  shows "normalize_path (normalize_path p @ CHR ''/'' # t) = normalize_path (p @ CHR ''/'' # t)"
proof -
  let ?a = "\<not> isAbsolute p"
  let ?res = "normalizeString ?a p"
  have ok: "stack_ok ?a ?res" by (rule stack_ok_normalizeString)
  have np: "normalize_path p = render (isAbsolute p) (trailingSeparator p) ?res"
    using assms by (simp add: normalize_path_def)
  from isAbsolute_render [of "isAbsolute p" ?res "trailingSeparator p"] ok np
  have ne: "normalize_path p \<noteq> []" and ab: "isAbsolute (normalize_path p) = isAbsolute p" by simp_all
  have ab': "isAbsolute (normalize_path p @ CHR ''/'' # t) = isAbsolute (p @ CHR ''/'' # t)"
    using ne ab assms by (simp add: isAbsolute_append)
  have "normalizeString ?a (normalize_path p @ CHR ''/'' # t)
        = fold (seg_step ?a) (split_sep t) (fold (seg_step ?a) (split_sep (normalize_path p)) [])"
    by (simp add: normalizeString_def split_sep_append)
  also have "fold (seg_step ?a) (split_sep (normalize_path p)) [] = ?res"
    unfolding np by (rule fold_split_render [OF ok])
  also have "fold (seg_step ?a) (split_sep t) ?res = normalizeString ?a (p @ CHR ''/'' # t)"
    by (simp add: normalizeString_def split_sep_append)
  finally have ns: "normalizeString ?a (normalize_path p @ CHR ''/'' # t)
                    = normalizeString ?a (p @ CHR ''/'' # t)" .
  have iab: "isAbsolute (p @ CHR ''/'' # t) = isAbsolute p"
    using assms by (simp add: isAbsolute_append)
  show ?thesis
    unfolding normalize_path_def [of "normalize_path p @ CHR ''/'' # t"] normalize_path_def [of "p @ CHR ''/'' # t"]
    using ns ab' iab trailingSeparator_append [of "normalize_path p" t] trailingSeparator_append [of p t]
    by simp
qed

lemma join_sep_append:
  "xs \<noteq> [] \<Longrightarrow> ys \<noteq> [] \<Longrightarrow> join_sep (xs @ ys) = join_sep xs @ CHR ''/'' # join_sep ys"
proof (induction xs rule: join_sep.induct)
  case 1
  then show ?case by simp
next
  case (2 s)
  then show ?case by (cases ys) simp_all
next
  case (3 s t ss)
  then show ?case by simp
qed

lemma join_sep_nonempty: "xs \<noteq> [] \<Longrightarrow> \<forall>x\<in>set xs. x \<noteq> [] \<Longrightarrow> join_sep xs \<noteq> []"
  by (induction xs rule: join_sep.induct) simp_all

lemma normalize_nonempty: "normalize_path p \<noteq> []"
proof (cases "p = []")
  case True
  then show ?thesis by (simp add: normalize_path_def)
next
  case False
  have ok: "stack_ok (\<not> isAbsolute p) (normalizeString (\<not> isAbsolute p) p)"
    by (rule stack_ok_normalizeString)
  from False isAbsolute_render [OF ok] show ?thesis
    by (simp add: normalize_path_def)
qed

lemma path_join_nested:
  assumes "filter (\<lambda>a. a \<noteq> []) xs \<noteq> []" and "filter (\<lambda>a. a \<noteq> []) ys \<noteq> []"
  shows "path_join (path_join xs # ys) = path_join (xs @ ys)"
proof -
  let ?fx = "filter (\<lambda>a. a \<noteq> []) xs" and ?fy = "filter (\<lambda>a. a \<noteq> []) ys"
  have jx: "join_sep ?fx \<noteq> []" using assms(1) by (intro join_sep_nonempty) auto
  have px: "path_join xs = normalize_path (join_sep ?fx)" using assms(1) by (simp add: path_join_def)
  have "path_join (path_join xs # ys) = normalize_path (join_sep (normalize_path (join_sep ?fx) # ?fy))"
    unfolding px by (simp add: path_join_def normalize_nonempty)
  also have "join_sep (normalize_path (join_sep ?fx) # ?fy)
             = normalize_path (join_sep ?fx) @ CHR ''/'' # join_sep ?fy"
    using assms(2) by (cases ?fy) simp_all
  also have "normalize_path (\<dots>) = normalize_path (join_sep ?fx @ CHR ''/'' # join_sep ?fy)"
    by (rule normalize_absorb [OF jx])
  also have "join_sep ?fx @ CHR ''/'' # join_sep ?fy = join_sep (?fx @ ?fy)"
    using assms by (simp add: join_sep_append)
  also have "normalize_path (\<dots>) = path_join (xs @ ys)"
    using assms by (simp add: path_join_def)
  finally show ?thesis .
qed

lemma path_segments_render:
  assumes "stack_ok a res"
  shows "path_segments (render absolute trailing res) = rev res"
proof (cases "res = []")
  case True
  then show ?thesis by (simp add: render_def path_segments_def)
next
  case False
  have "filter (\<lambda>s. s \<noteq> [] \<and> s \<noteq> ''.'') (rev res) = rev res"
    using assms stack_ok_elems by (intro filter_True) auto
  then show ?thesis
    by (simp add: path_segments_def split_render [OF assms False])
qed

lemma fold_step_skip_empty:
  "fold (seg_step a) (concat (map split_sep (filter (\<lambda>a. a \<noteq> []) parts))) res
   = fold (seg_step a) (concat (map split_sep parts)) res"
  by (induction parts arbitrary: res) (simp_all add: seg_step_def)

lemma path_segments_path_join: "path_segments (path_join parts) = rev (join_stack parts)"
proof (cases "filter (\<lambda>a. a \<noteq> []) parts = []")
  case True
  have "join_stack parts = fold (seg_step (\<not> abs_of parts))
          (concat (map split_sep (filter (\<lambda>a. a \<noteq> []) parts))) []"
    by (simp only: join_stack_def fold_step_skip_empty)
  with True show ?thesis by (simp add: path_join_def path_segments_def)
next
  case False
  let ?j = "join_sep (filter (\<lambda>a. a \<noteq> []) parts)"
  have ne: "?j \<noteq> []" using False by (intro join_sep_nonempty) auto
  have "normalizeString (\<not> isAbsolute ?j) ?j = join_stack parts"
    by (simp add: normalizeString_def join_stack_def abs_of_def split_join_parts [OF False]
        fold_step_skip_empty)
  moreover have "stack_ok (\<not> isAbsolute ?j) (normalizeString (\<not> isAbsolute ?j) ?j)"
    by (rule stack_ok_normalizeString)
  ultimately show ?thesis
    using False ne by (simp add: path_join_def normalize_path_def path_segments_render Let_def)
qed

lemma fold_step_grows:
  "''..'' \<notin> set segs \<Longrightarrow> \<exists>more. fold (seg_step a) segs res = more @ res"
proof (induction segs arbitrary: res)
  case Nil
  then show ?case by simp
next
  case (Cons s segs)
  then have "s \<noteq> ''..''" by auto
  then have "seg_step a s res = res \<or> seg_step a s res = s # res"
    by (simp add: seg_step_def)
  moreover from Cons obtain more where "fold (seg_step a) segs (seg_step a s res) = more @ seg_step a s res"
    by (metis list.set_intros(2))
  ultimately show ?case by (metis append.assoc append_Cons append_Nil fold_simps(2))
qed

lemma abs_of_Cons: "abs_of (x # ys) = (if x = [] then abs_of ys else isAbsolute x)"
proof (cases "x = []")
  case True
  then show ?thesis by (simp add: abs_of_def)
next
  case False
  then show ?thesis
    by (cases "filter (\<lambda>a. a \<noteq> []) ys") (simp_all add: abs_of_def isAbsolute_append)
qed

lemma abs_of_append:
  assumes "filter (\<lambda>a. a \<noteq> []) xs \<noteq> []"
  shows "abs_of (xs @ ys) = abs_of xs"
proof (cases "filter (\<lambda>a. a \<noteq> []) ys = []")
  case True
  then show ?thesis by (simp add: abs_of_def)
next
  case False
  have "join_sep (filter (\<lambda>a. a \<noteq> []) xs) \<noteq> []"
    using assms by (intro join_sep_nonempty) auto
  then show ?thesis
    using assms False by (simp add: abs_of_def join_sep_append isAbsolute_append)
qed

lemma join_stack_append:
  assumes "filter (\<lambda>a. a \<noteq> []) xs \<noteq> []"
  shows "join_stack (xs @ ys)
         = fold (seg_step (\<not> abs_of xs)) (concat (map split_sep ys)) (join_stack xs)"
  by (simp add: join_stack_def abs_of_append [OF assms])

lemma inside_path_join_append:
  assumes "filter (\<lambda>a. a \<noteq> []) xs \<noteq> []" and "''..'' \<notin> set (concat (map split_sep ys))"
  shows "inside (path_join xs) (path_join (xs @ ys))"
proof -
  from fold_step_grows [OF assms(2)] obtain more where
    "fold (seg_step (\<not> abs_of xs)) (concat (map split_sep ys)) (join_stack xs) = more @ join_stack xs"
    by blast
  then have "join_stack (xs @ ys) = more @ join_stack xs"
    by (simp add: join_stack_append [OF assms(1)])
  then show ?thesis
    by (simp add: inside_def path_segments_path_join)
qed

lemma filePath_inside_destination:
  assumes "''..'' \<notin> set (split_sep param)"
  shows "inside (destination user) (filePath user param)"
proof -
  have "inside (path_join [homeDirectory user, ''uploads''])
          (path_join ([homeDirectory user, ''uploads''] @ [param]))"
    using assms by (intro inside_path_join_append) simp_all
  then show ?thesis by (simp add: destination_def filePath_def)
qed

lemma step_simple: "simple_name s \<Longrightarrow> fold (seg_step a) (split_sep s) res = s # res"
  by (simp add: simple_name_def split_sep_id seg_step_def)

lemma join_stack_home:
  assumes "simple_name u"
  shows "join_stack [d, ''/home/'', u]
         = u # ''home'' # fold (seg_step (\<not> abs_of [d, ''/home/''])) (split_sep d) []"
proof -
  have "join_stack ([d, ''/home/''] @ [u])
        = fold (seg_step (\<not> abs_of [d, ''/home/''])) (split_sep u) (join_stack [d, ''/home/''])"
    by (subst join_stack_append) simp_all
  also have "\<dots> = u # join_stack [d, ''/home/'']"
    using assms by (simp add: step_simple)
  also have "join_stack [d, ''/home/'']
             = ''home'' # fold (seg_step (\<not> abs_of [d, ''/home/''])) (split_sep d) []"
    by (simp add: join_stack_def seg_step_def)
  finally show ?thesis by simp
qed

lemma filePath_not_inside_other:
  assumes "''..'' \<notin> set (split_sep param)" and "simple_name a" and "simple_name b"
    and "a \<noteq> b" and "homeDirectory user = path_join [d, ''/home/'', b]"
  shows "\<not> inside (path_join [d, ''/home/'', a]) (filePath user param)"
proof -
  let ?S = "fold (seg_step (\<not> abs_of [d, ''/home/''])) (split_sep d) []"
  have fp: "filePath user param = path_join ([d, ''/home/'', b] @ [''uploads'', param])"
    unfolding filePath_def assms(5)
    by (subst path_join_nested) simp_all
  have ab: "abs_of [d, ''/home/'', b] = abs_of [d, ''/home/'']"
    using abs_of_append [of "[d, ''/home/'']" "[b]"] by simp
  have "''..'' \<notin> set (concat (map split_sep [''uploads'', param]))"
    using assms(1) by simp
  from fold_step_grows [OF this] obtain more where
    "fold (seg_step (\<not> abs_of [d, ''/home/'', b])) (concat (map split_sep [''uploads'', param]))
       (join_stack [d, ''/home/'', b]) = more @ join_stack [d, ''/home/'', b]"
    by blast
  then have "join_stack ([d, ''/home/'', b] @ [''uploads'', param]) = more @ b # ''home'' # ?S"
    by (subst join_stack_append) (simp_all add: join_stack_home [OF assms(3)])
  then have sb: "path_segments (filePath user param) = rev ?S @ [''home'', b] @ rev more"
    by (simp add: fp path_segments_path_join)
  have sa: "path_segments (path_join [d, ''/home/'', a]) = rev ?S @ [''home'', a]"
    by (simp add: path_segments_path_join join_stack_home [OF assms(2)])
  show ?thesis
    using assms(4) by (simp add: inside_def sa sb)
qed


section \<open>The example deployment, evaluated\<close>

lemmas path_eval = path_join_def normalize_path_def normalizeString_def seg_step_def render_def
  isAbsolute_def trailingSeparator_def

lemma alice_token_eq: "alice_token = Compact alice_payload ''secret.alice./srv/app/home/alice.3600''"
  by (simp add: alice_token_def jwt_sign_def example_env_def string_of_nat.simps alice_payload_def)

lemma bob_token_eq: "bob_token = Compact bob_payload ''secret.bob./srv/app/home/bob.3600''"
  by (simp add: bob_token_def jwt_sign_def example_env_def string_of_nat.simps bob_payload_def)

lemma alice_verified: "jwtMiddleware example_env (now example_state) alice_header = Inr alice_payload"
  by (simp add: jwtMiddleware_def alice_header_def bearer_def alice_token_eq jwt_verify_def)
     (simp add: example_env_def string_of_nat.simps alice_payload_def example_state_def)

lemma bob_verified: "jwtMiddleware example_env (now example_state) bob_header = Inr bob_payload"
  by (simp add: jwtMiddleware_def bob_header_def bearer_def bob_token_eq jwt_verify_def)
     (simp add: example_env_def string_of_nat.simps bob_payload_def example_state_def)

section \<open>Path resolution of download, view and delete\<close>

text \<open>
  Claim C1 says that the path resolution of download, view and delete rejects, with
  InvalidFilename, every filename that would resolve outside the caller's \<^verbatim>\<open>uploads\<close>
  directory, so that no operation of a user B resolves inside the namespace of another
  user A.  The source has no such check: \<open>filePath\<close> is \<open>path_join\<close> of the token's home
  directory, \<^verbatim>\<open>uploads\<close> and the parameter, for every parameter.  With \<^verbatim>\<open>bob\<close>'s token and
  the parameter \<^verbatim>\<open>../../alice/uploads/notes.txt\<close> the path is \<^verbatim>\<open>alice\<close>'s file, and the delete
  route removes it.
\<close>

theorem traversal_reaches_other_user:
  "filePath bob_payload ''../../alice/uploads/notes.txt'' = ''/srv/app/home/alice/uploads/notes.txt''
   \<and> inside (destination alice_payload) (filePath bob_payload ''../../alice/uploads/notes.txt'')
   \<and> delete_route example_env bob_header ''../../alice/uploads/notes.txt'' example_state
       = (Sent \<lparr>status = 200, body = Json [(''message'', JStr ''File deleted successfully'')]\<rparr>,
          example_state
            \<lparr>files := [],
             auditLog := [''5000 - delete by bob on file ../../alice/uploads/notes.txt'' @ [CHR 0x0A]]\<rparr>)"
proof -
  have p: "filePath bob_payload ''../../alice/uploads/notes.txt''
           = ''/srv/app/home/alice/uploads/notes.txt''"
    by (simp add: filePath_def bob_payload_def path_eval)
  have d: "destination alice_payload = ''/srv/app/home/alice/uploads''"
    by (simp add: destination_def alice_payload_def path_eval)
  have i: "inside ''/srv/app/home/alice/uploads'' ''/srv/app/home/alice/uploads/notes.txt''"
    by (simp add: inside_def path_segments_def)
  have r: "delete_route example_env bob_header ''../../alice/uploads/notes.txt'' example_state
       = (Sent \<lparr>status = 200, body = Json [(''message'', JStr ''File deleted successfully'')]\<rparr>,
          example_state
            \<lparr>files := [],
             auditLog := [''5000 - delete by bob on file ../../alice/uploads/notes.txt'' @ [CHR 0x0A]]\<rparr>)"
    by (simp add: delete_route_def audited_route_def bob_verified auditMiddleware_def audit_def
        auditMessage_def delete_handler_def p unlink_def nul_free_def)
       (simp add: example_state_def example_env_def string_of_nat.simps bob_payload_def)
  from p d i r show ?thesis by simp
qed

text \<open>
  C1, as the code has it: no parameter is rejected, and a parameter without a \<^verbatim>\<open>..\<close>
  segment resolves inside the caller's \<^verbatim>\<open>uploads\<close> directory; when the caller's home
  directory is the one login derives from the uid \<open>b\<close>, and \<open>a\<close> is another uid, both of them
  plain names, such a parameter never resolves inside the home directory of \<open>a\<close>.
\<close>

theorem filePath_confined:
  assumes "''..'' \<notin> set (split_sep param)"
  shows "inside (destination user) (filePath user param)
         \<and> (simple_name a \<and> simple_name b \<and> a \<noteq> b
              \<and> homeDirectory user = path_join [dirname e, ''/home/'', b]
            \<longrightarrow> \<not> inside (path_join [dirname e, ''/home/'', a]) (filePath user param))"
  using assms filePath_inside_destination filePath_not_inside_other by blast

text \<open>The statement at \<^verbatim>\<open>bob\<close>'s token, the parameter \<^verbatim>\<open>report.pdf\<close> and the other user \<^verbatim>\<open>alice\<close>.\<close>

theorem filePath_confined_witness:
  "''..'' \<notin> set (split_sep ''report.pdf'')
   \<and> simple_name ''alice'' \<and> simple_name ''bob'' \<and> ''alice'' \<noteq> ''bob''
   \<and> homeDirectory bob_payload = path_join [dirname example_env, ''/home/'', ''bob'']
   \<and> inside (destination bob_payload) (filePath bob_payload ''report.pdf'')
   \<and> \<not> inside (path_join [dirname example_env, ''/home/'', ''alice''])
          (filePath bob_payload ''report.pdf'')"
proof -
  have h1: "''..'' \<notin> set (split_sep ''report.pdf'')" by simp
  have h2: "simple_name ''alice''" "simple_name ''bob''" "''alice'' \<noteq> ''bob''"
    by (simp_all add: simple_name_def)
  have h3: "homeDirectory bob_payload = path_join [dirname example_env, ''/home/'', ''bob'']"
    by (simp add: bob_payload_def example_env_def string_of_nat.simps path_eval)
  from filePath_confined [OF h1, of bob_payload "''alice''" "''bob''" example_env] h1 h2 h3
  show ?thesis by blast
qed

section \<open>Session verification\<close>

lemma jwt_verify_minted:
  "jwt_verify e (Some (jwt_sign e d h u t0)) t
   = (if t div 1000 < t0 div 1000 + 3600
      then Inr \<lparr>dn = d, homeDirectory = h, uid = u, iat = t0 div 1000, exp = t0 div 1000 + 3600\<rparr>
      else Inl TokenExpiredError)"
  by (simp add: jwt_verify_def jwt_sign_def Let_def)

lemma jwt_sign_signature:
  "jwt_sign e d h u t0 = Compact c sg \<Longrightarrow> sg = hmac e (JWT_SECRET e) c"
  by (auto simp: jwt_sign_def Let_def)

text \<open>
  Claim C3: a token minted by the issuer is accepted by the verifier until, and only
  until, its expiry one hour (3600 seconds) after issuance, and the same token with any
  other signature is always refused with the answer for an invalid credential.  The clock
  values \<open>t0\<close> (issuance) and \<open>t\<close> (verification) are in milliseconds, as \<^verbatim>\<open>Date.now()\<close>
  gives them; \<open>scheme\<close> is the first part of the header.
\<close>

theorem minted_token_verification:
  "jwtMiddleware e t (Some [scheme, jwt_sign e d h u t0])
   = (if t div 1000 < t0 div 1000 + 3600
      then Inr \<lparr>dn = d, homeDirectory = h, uid = u, iat = t0 div 1000, exp = t0 div 1000 + 3600\<rparr>
      else Inl \<lparr>status = 401, body = Json [(''message'', JStr ''Invalid or missing token'')]\<rparr>)
   \<and> (jwt_sign e d h u t0 = Compact c sg \<and> sg' \<noteq> sg
      \<longrightarrow> jwtMiddleware e t (Some [scheme, Compact c sg'])
          = Inl \<lparr>status = 401, body = Json [(''message'', JStr ''Invalid or missing token'')]\<rparr>)"
proof -
  have accepted: "jwtMiddleware e t (Some [scheme, jwt_sign e d h u t0])
   = (if t div 1000 < t0 div 1000 + 3600
      then Inr \<lparr>dn = d, homeDirectory = h, uid = u, iat = t0 div 1000, exp = t0 div 1000 + 3600\<rparr>
      else Inl \<lparr>status = 401, body = Json [(''message'', JStr ''Invalid or missing token'')]\<rparr>)"
    by (simp add: jwtMiddleware_def bearer_def jwt_verify_minted)
  have tampered: "jwt_sign e d h u t0 = Compact c sg \<and> sg' \<noteq> sg
      \<longrightarrow> jwtMiddleware e t (Some [scheme, Compact c sg'])
          = Inl \<lparr>status = 401, body = Json [(''message'', JStr ''Invalid or missing token'')]\<rparr>"
    using jwt_sign_signature [of e d h u t0 c sg]
    by (auto simp: jwtMiddleware_def bearer_def jwt_verify_def)
  from accepted tampered show ?thesis by blast
qed

text \<open>
  The statement at \<^verbatim>\<open>alice\<close>'s token, minted at clock value 0: accepted one millisecond
  before the hour is over, refused at the hour, and refused with a signature whose last
  character is changed.
\<close>

theorem minted_token_verification_witness:
  "alice_token = Compact alice_payload ''secret.alice./srv/app/home/alice.3600''
   \<and> ''secret.alice./srv/app/home/alice.3601'' \<noteq> ''secret.alice./srv/app/home/alice.3600''
   \<and> jwtMiddleware example_env 3599999 (Some [Garbled ''Bearer'', alice_token]) = Inr alice_payload
   \<and> jwtMiddleware example_env 3600000 (Some [Garbled ''Bearer'', alice_token])
       = Inl \<lparr>status = 401, body = Json [(''message'', JStr ''Invalid or missing token'')]\<rparr>
   \<and> jwtMiddleware example_env 5000
         (Some [Garbled ''Bearer'', Compact alice_payload ''secret.alice./srv/app/home/alice.3601''])
       = Inl \<lparr>status = 401, body = Json [(''message'', JStr ''Invalid or missing token'')]\<rparr>"
proof -
  have tok: "jwt_sign example_env ''uid=alice,dc=example'' ''/srv/app/home/alice'' ''alice'' 0
             = Compact alice_payload ''secret.alice./srv/app/home/alice.3600''"
    using alice_token_eq by (simp add: alice_token_def)
  have ne: "''secret.alice./srv/app/home/alice.3601'' \<noteq> ''secret.alice./srv/app/home/alice.3600''"
    by simp
  note m = minted_token_verification [of example_env _ "Garbled ''Bearer''" "''uid=alice,dc=example''"
      "''/srv/app/home/alice''" "''alice''" 0 alice_payload
      "''secret.alice./srv/app/home/alice.3600''" "''secret.alice./srv/app/home/alice.3601''"]
  have a: "jwtMiddleware example_env 3599999 (Some [Garbled ''Bearer'', alice_token]) = Inr alice_payload"
    using m [of 3599999] by (simp add: alice_token_def alice_payload_def)
  have b: "jwtMiddleware example_env 3600000 (Some [Garbled ''Bearer'', alice_token])
       = Inl \<lparr>status = 401, body = Json [(''message'', JStr ''Invalid or missing token'')]\<rparr>"
    using m [of 3600000] by (simp add: alice_token_def)
  have c: "jwtMiddleware example_env 5000
         (Some [Garbled ''Bearer'', Compact alice_payload ''secret.alice./srv/app/home/alice.3601''])
       = Inl \<lparr>status = 401, body = Json [(''message'', JStr ''Invalid or missing token'')]\<rparr>"
    using m [of 5000] tok ne by blast
  from alice_token_eq ne a b c show ?thesis by blast
qed


text \<open>
  Claim C4 says that the verifier has three distinct error outcomes: MissingCredential for
  an absent token, InvalidCredential for a bad signature or a malformed token, and
  ExpiredCredential for a token past its expiry.  In the source the \<^verbatim>\<open>catch\<close> of
  \<^verbatim>\<open>jwtMiddleware\<close> answers every exception of \<^verbatim>\<open>jwt.verify\<close> alike: \<^verbatim>\<open>alice\<close>'s token two
  hours after issuance and a token with a forged signature raise different errors in the
  library and get the same response.
\<close>

theorem expired_token_reported_as_invalid:
  "jwt_verify example_env (Some alice_token) 7200000 = Inl TokenExpiredError
   \<and> jwt_verify example_env (Some (Compact alice_payload ''forged'')) 5000 = Inl JsonWebTokenError
   \<and> jwtMiddleware example_env 7200000 (Some [Garbled ''Bearer'', alice_token])
       = Inl \<lparr>status = 401, body = Json [(''message'', JStr ''Invalid or missing token'')]\<rparr>
   \<and> jwtMiddleware example_env 5000 (Some [Garbled ''Bearer'', Compact alice_payload ''forged''])
       = Inl \<lparr>status = 401, body = Json [(''message'', JStr ''Invalid or missing token'')]\<rparr>"
  by (simp add: jwtMiddleware_def bearer_def alice_token_eq jwt_verify_def)
     (simp add: example_env_def string_of_nat.simps alice_payload_def)

text \<open>
  C4, as the code has it: an absent header is answered with 401 and
  \<^verbatim>\<open>Authorization header is missing\<close>; a header without a second part, a malformed token,
  a token whose signature check fails and a correctly signed token that has expired are all
  answered with 401 and \<^verbatim>\<open>Invalid or missing token\<close>; a correctly signed token that has not
  expired passes with its payload.
\<close>

theorem jwtMiddleware_two_outcomes:
  "jwtMiddleware e t None
     = Inl \<lparr>status = 401, body = Json [(''message'', JStr ''Authorization header is missing'')]\<rparr>
   \<and> (length parts \<le> 1 \<longrightarrow>
        jwtMiddleware e t (Some parts)
          = Inl \<lparr>status = 401, body = Json [(''message'', JStr ''Invalid or missing token'')]\<rparr>)
   \<and> jwtMiddleware e t (Some (scheme # Garbled s # rest))
       = Inl \<lparr>status = 401, body = Json [(''message'', JStr ''Invalid or missing token'')]\<rparr>
   \<and> (sg \<noteq> hmac e (JWT_SECRET e) c \<longrightarrow>
        jwtMiddleware e t (Some (scheme # Compact c sg # rest))
          = Inl \<lparr>status = 401, body = Json [(''message'', JStr ''Invalid or missing token'')]\<rparr>)
   \<and> (exp c \<le> t div 1000 \<longrightarrow>
        jwtMiddleware e t (Some (scheme # Compact c (hmac e (JWT_SECRET e) c) # rest))
          = Inl \<lparr>status = 401, body = Json [(''message'', JStr ''Invalid or missing token'')]\<rparr>)
   \<and> (t div 1000 < exp c \<longrightarrow>
        jwtMiddleware e t (Some (scheme # Compact c (hmac e (JWT_SECRET e) c) # rest)) = Inr c)"
proof -
  have absent: "jwtMiddleware e t None
     = Inl \<lparr>status = 401, body = Json [(''message'', JStr ''Authorization header is missing'')]\<rparr>"
    by (simp add: jwtMiddleware_def)
  have no_token: "length parts \<le> 1 \<longrightarrow> jwt_verify e (bearer parts) t = Inl JsonWebTokenError"
    by (simp add: bearer_def jwt_verify_def)
  have token: "bearer (scheme # tok # rest) = Some tok" for tok
    by (simp add: bearer_def)
  have malformed: "jwt_verify e (Some (Garbled s)) t = Inl JsonWebTokenError"
    by (simp add: jwt_verify_def)
  have forged: "sg \<noteq> hmac e (JWT_SECRET e) c \<longrightarrow>
                  jwt_verify e (Some (Compact c sg)) t = Inl JsonWebTokenError"
    by (simp add: jwt_verify_def)
  have signed: "jwt_verify e (Some (Compact c (hmac e (JWT_SECRET e) c))) t
                = (if exp c \<le> t div 1000 then Inl TokenExpiredError else Inr c)"
    by (simp add: jwt_verify_def)
  from absent no_token malformed forged signed show ?thesis
    by (simp add: jwtMiddleware_def token)
qed

text \<open>
  The statement for a header that is only \<^verbatim>\<open>Bearer\<close>, a malformed token, a forged
  signature, and \<^verbatim>\<open>alice\<close>'s correctly signed token two hours after issuance.
\<close>

theorem jwtMiddleware_two_outcomes_witness:
  "length [Garbled ''Bearer''] \<le> 1
   \<and> ''forged'' \<noteq> hmac example_env (JWT_SECRET example_env) alice_payload
   \<and> exp alice_payload \<le> 7200000 div 1000
   \<and> jwtMiddleware example_env 7200000 None
       = Inl \<lparr>status = 401, body = Json [(''message'', JStr ''Authorization header is missing'')]\<rparr>
   \<and> jwtMiddleware example_env 7200000 (Some [Garbled ''Bearer''])
       = Inl \<lparr>status = 401, body = Json [(''message'', JStr ''Invalid or missing token'')]\<rparr>
   \<and> jwtMiddleware example_env 7200000 (Some [Garbled ''Bearer'', Garbled ''abc''])
       = Inl \<lparr>status = 401, body = Json [(''message'', JStr ''Invalid or missing token'')]\<rparr>
   \<and> jwtMiddleware example_env 7200000 (Some [Garbled ''Bearer'', Compact alice_payload ''forged''])
       = Inl \<lparr>status = 401, body = Json [(''message'', JStr ''Invalid or missing token'')]\<rparr>
   \<and> jwtMiddleware example_env 7200000
         (Some [Garbled ''Bearer'',
                Compact alice_payload (hmac example_env (JWT_SECRET example_env) alice_payload)])
       = Inl \<lparr>status = 401, body = Json [(''message'', JStr ''Invalid or missing token'')]\<rparr>"
proof -
  have h1: "length [Garbled ''Bearer''] \<le> 1" by simp
  have h2: "''forged'' \<noteq> hmac example_env (JWT_SECRET example_env) alice_payload"
    by (simp add: example_env_def string_of_nat.simps)
  have h3: "exp alice_payload \<le> 7200000 div 1000" by (simp add: alice_payload_def)
  from jwtMiddleware_two_outcomes [of example_env 7200000 "[Garbled ''Bearer'']" "Garbled ''Bearer''"
      "''abc''" "[]" "''forged''" alice_payload] h1 h2 h3
  show ?thesis by blast
qed

section \<open>Auditing of the file operations\<close>

lemma audited_route_run:
  assumes "jwtMiddleware e (now st) h = Inr user" and "param \<noteq> []"
  shows "audited_route action handler e h param st
         = (if auditWritable st
            then handler user param
                   (st\<lparr>auditLog := auditLog st
                         @ [auditMessage e (now st) action (Some param) (uid user)]\<rparr>)
            else (Errored AuditAppendFailed, st))"
  using assms by (simp add: audited_route_def auditMiddleware_def audit_def)

lemma audited_route_logged:
  assumes "jwtMiddleware e (now st) h = Inr user" and "auditWritable st" and "param \<noteq> []"
  shows "audited_route action handler e h param st
         = handler user param
             (st\<lparr>auditLog := auditLog st @ [auditMessage e (now st) action (Some param) (uid user)]\<rparr>)"
  using assms by (simp add: audited_route_run)

lemma audited_route_blocked:
  assumes "jwtMiddleware e (now st) h = Inr user" and "\<not> auditWritable st"
  shows "audited_route action handler e h param st = (Errored AuditAppendFailed, st)"
  using assms by (simp add: audited_route_def auditMiddleware_def audit_def)

lemma writeFile_keeps:
  "writeFile x p c st = Inr st1 \<Longrightarrow>
     auditWritable st1 = auditWritable st \<and> now st1 = now st \<and> auditLog st1 = auditLog st
     \<and> files st1 = AList.update p c (files st) \<and> nul_free p \<and> \<not> trailingSeparator p"
  by (auto simp: writeFile_def split: if_splits)

lemma upload_single_keeps:
  "upload_single user part st = Inr (file, st1) \<Longrightarrow>
     auditWritable st1 = auditWritable st \<and> now st1 = now st \<and> auditLog st1 = auditLog st"
  by (auto simp: upload_single_def Let_def split: option.splits sum.splits if_splits
      dest: writeFile_keeps)

lemma upload_route_run:
  assumes "jwtMiddleware e (now st) h = Inr user"
    and "upload_single user part st = Inr (file, st1)"
  shows "upload_route e h part st
         = (if auditWritable st
            then (upload_handler file,
                  st1\<lparr>auditLog := auditLog st1
                         @ [auditMessage e (now st1) ''upload'' file (uid user)]\<rparr>)
            else (Errored AuditAppendFailed, st1))"
  using assms upload_single_keeps [OF assms(2)]
  by (simp add: upload_route_def auditMiddleware_def audit_def)

lemma upload_route_logged:
  assumes "jwtMiddleware e (now st) h = Inr user" and "auditWritable st"
    and "upload_single user part st = Inr (file, st1)"
  shows "upload_route e h part st
         = (upload_handler file,
            st1\<lparr>auditLog := auditLog st1 @ [auditMessage e (now st1) ''upload'' file (uid user)]\<rparr>)"
  using assms by (simp add: upload_route_run)

lemma upload_route_blocked:
  assumes "jwtMiddleware e (now st) h = Inr user" and "\<not> auditWritable st"
    and "upload_single user part st = Inr (file, st1)"
  shows "upload_route e h part st = (Errored AuditAppendFailed, st1)"
  using assms by (simp add: upload_route_run)

lemma upload_route_unstored:
  assumes "jwtMiddleware e (now st) h = Inr user" and "upload_single user part st = Inl err"
  shows "upload_route e h part st = (Errored err, st)"
  using assms by (simp add: upload_route_def)

lemma files_route_state: "snd (files_route e h st) = st"
  by (simp add: files_route_def split: sum.splits)

text \<open>
  Claim C5 says that every file operation, successful or attempted, list included when it
  succeeds, triggers an audit call before its response.  The route \<^verbatim>\<open>/files\<close> has no
  \<^verbatim>\<open>auditMiddleware\<close>: \<^verbatim>\<open>alice\<close>'s successful list leaves the state, and with it the audit
  file, as it was.  And in \<^verbatim>\<open>/upload\<close> the audit comes after the storing: when the
  \<^verbatim>\<open>uploads\<close> directories are gone, \<^verbatim>\<open>alice\<close>'s upload fails to store its file and ends
  without an audit call.
\<close>

theorem list_and_unstored_upload_not_audited:
  "files_route example_env alice_header example_state
     = (Sent \<lparr>status = 200, body = Json [(''files'', JNames [''notes.txt''])]\<rparr>, example_state)
   \<and> auditLog example_state = []
   \<and> upload_route example_env alice_header (Some (''x.bin'', [0xFF])) (example_state\<lparr>dirs := []\<rparr>)
     = (Errored FsError, example_state\<lparr>dirs := []\<rparr>)"
proof -
  note v = alice_verified
  have w: "jwt_verify example_env (bearer [Garbled ''Bearer'', alice_token]) (now example_state)
           = Inr alice_payload"
    by (simp add: bearer_def alice_token_eq jwt_verify_def)
       (simp add: example_env_def string_of_nat.simps alice_payload_def example_state_def)
  have d: "files_dir example_env alice_payload = ''/srv/app/home/alice/uploads''"
    by (simp add: files_dir_def example_env_def string_of_nat.simps alice_payload_def path_eval)
  have r: "readdir ''/srv/app/home/alice/uploads'' example_state = Inr [''notes.txt'']"
    by (simp add: readdir_def nul_free_def example_state_def fs_parent_def isAbsolute_def)
  have h: "files_handler example_env alice_header example_state
           = \<lparr>status = 200, body = Json [(''files'', JNames [''notes.txt''])]\<rparr>"
    by (simp add: files_handler_def alice_header_def w d r)
  have l: "files_route example_env alice_header example_state
     = (Sent \<lparr>status = 200, body = Json [(''files'', JNames [''notes.txt''])]\<rparr>, example_state)"
    by (simp add: files_route_def v h)
  have a: "auditLog example_state = []" by (simp add: example_state_def)
  have v': "jwtMiddleware example_env (now (example_state\<lparr>dirs := []\<rparr>)) alice_header
            = Inr alice_payload"
    using alice_verified by simp
  have p: "path_join [destination alice_payload, ''5000-x.bin'']
           = ''/srv/app/home/alice/uploads/5000-x.bin''"
    by (simp add: destination_def alice_payload_def path_eval)
  have f: "filename (now example_state) (basename ''x.bin'') = ''5000-x.bin''"
    by (simp add: filename_def string_of_nat.simps basename_def example_state_def)
  have b: "basename ''x.bin'' \<noteq> []" by (simp add: basename_def)
  have u: "upload_single alice_payload (Some (''x.bin'', [0xFF])) (example_state\<lparr>dirs := []\<rparr>)
           = Inl FsError"
    by (simp add: upload_single_def Let_def b f p writeFile_def nul_free_def)
  from l a upload_route_unstored [OF v' u] show ?thesis by simp
qed

text \<open>
  C5, as the code has it.  For a request that passed \<^verbatim>\<open>jwtMiddleware\<close>: delete, download
  and view run their handler, which sends the response, in the state to which the audit
  text for the action and the filename has already been appended, whether the handler then
  succeeds or not, and when the audit write fails the handler does not run at all; upload
  does the same once its file part has been stored, and is not audited when the part
  cannot be stored; and list never changes the state, the audit file included.
\<close>

theorem file_operations_audited:
  assumes "jwtMiddleware e (now st) h = Inr user"
  shows "(param \<noteq> [] \<longrightarrow>
            delete_route e h param st
              = (if auditWritable st
                 then delete_handler user param
                        (st\<lparr>auditLog := auditLog st
                              @ [auditMessage e (now st) ''delete'' (Some param) (uid user)]\<rparr>)
                 else (Errored AuditAppendFailed, st))
          \<and> download_route e h param st
              = (if auditWritable st
                 then download_handler user param
                        (st\<lparr>auditLog := auditLog st
                              @ [auditMessage e (now st) ''download'' (Some param) (uid user)]\<rparr>)
                 else (Errored AuditAppendFailed, st))
          \<and> view_route e h param st
              = (if auditWritable st
                 then view_handler user param
                        (st\<lparr>auditLog := auditLog st
                              @ [auditMessage e (now st) ''view'' (Some param) (uid user)]\<rparr>)
                 else (Errored AuditAppendFailed, st)))
       \<and> (upload_single user part st = Inr (file, st1) \<longrightarrow>
            upload_route e h part st
              = (if auditWritable st
                 then (upload_handler file,
                       st1\<lparr>auditLog := auditLog st1
                              @ [auditMessage e (now st1) ''upload'' file (uid user)]\<rparr>)
                 else (Errored AuditAppendFailed, st1)))
       \<and> (upload_single user part' st = Inl err \<longrightarrow>
            upload_route e h part' st = (Errored err, st))
       \<and> snd (files_route e h st) = st"
proof -
  have routes: "param \<noteq> [] \<longrightarrow>
            delete_route e h param st
              = (if auditWritable st
                 then delete_handler user param
                        (st\<lparr>auditLog := auditLog st
                              @ [auditMessage e (now st) ''delete'' (Some param) (uid user)]\<rparr>)
                 else (Errored AuditAppendFailed, st))
          \<and> download_route e h param st
              = (if auditWritable st
                 then download_handler user param
                        (st\<lparr>auditLog := auditLog st
                              @ [auditMessage e (now st) ''download'' (Some param) (uid user)]\<rparr>)
                 else (Errored AuditAppendFailed, st))
          \<and> view_route e h param st
              = (if auditWritable st
                 then view_handler user param
                        (st\<lparr>auditLog := auditLog st
                              @ [auditMessage e (now st) ''view'' (Some param) (uid user)]\<rparr>)
                 else (Errored AuditAppendFailed, st))"
    using audited_route_run [OF assms]
    by (simp add: delete_route_def download_route_def view_route_def)
  from routes upload_route_run [OF assms] upload_route_unstored [OF assms] files_route_state
  show ?thesis by blast
qed

lemma example_upload:
  "upload_single alice_payload (Some (''x.bin'', X)) example_state
   = Inr (Some ''5000-x.bin'',
          example_state\<lparr>files := [(''/srv/app/home/alice/uploads/notes.txt'', [0x68, 0x69]),
                                   (''/srv/app/home/alice/uploads/5000-x.bin'', X)]\<rparr>)"
proof -
  have f: "filename (now example_state) (basename ''x.bin'') = ''5000-x.bin''"
    by (simp add: filename_def string_of_nat.simps basename_def example_state_def)
  have p: "path_join [destination alice_payload, ''5000-x.bin'']
           = ''/srv/app/home/alice/uploads/5000-x.bin''"
    by (simp add: destination_def alice_payload_def path_eval)
  have q: "fs_parent ''/srv/app/home/alice/uploads/5000-x.bin'' = ''/srv/app/home/alice/uploads''"
    by (simp add: fs_parent_def)
  have b: "basename ''x.bin'' \<noteq> []" by (simp add: basename_def)
  show ?thesis
    by (simp add: upload_single_def Let_def b f p writeFile_def q trailingSeparator_def nul_free_def)
       (simp add: example_state_def)
qed

lemma example_upload_nul:
  "upload_single alice_payload (Some ([CHR 0x00], X)) example_state = Inl TypeError"
proof -
  have "\<not> nul_free (path_join [destination alice_payload,
                                  filename (now example_state) (basename [CHR 0x00])])"
    by (simp add: filename_def string_of_nat.simps basename_def example_state_def
        destination_def alice_payload_def path_eval nul_free_def)
  moreover have "basename [CHR 0x00] \<noteq> []" by (simp add: basename_def)
  ultimately show ?thesis
    by (simp add: upload_single_def Let_def writeFile_def)
qed

text \<open>
  The statement for \<^verbatim>\<open>alice\<close> in the example deployment, where the audit file is writable;
  the part that cannot be stored has a NUL for its filename.
\<close>

theorem file_operations_audited_witness:
  "jwtMiddleware example_env (now example_state) alice_header = Inr alice_payload
   \<and> ''notes.txt'' \<noteq> []
   \<and> upload_single alice_payload (Some (''x.bin'', [0xFF])) example_state
       = Inr (Some ''5000-x.bin'',
              example_state\<lparr>files := [(''/srv/app/home/alice/uploads/notes.txt'', [0x68, 0x69]),
                                       (''/srv/app/home/alice/uploads/5000-x.bin'', [0xFF])]\<rparr>)
   \<and> upload_single alice_payload (Some ([CHR 0x00], [0xFF])) example_state = Inl TypeError
   \<and> delete_route example_env alice_header ''notes.txt'' example_state
       = delete_handler alice_payload ''notes.txt''
           (example_state\<lparr>auditLog := [''5000 - delete by alice on file notes.txt'' @ [CHR 0x0A]]\<rparr>)
   \<and> download_route example_env alice_header ''notes.txt'' example_state
       = download_handler alice_payload ''notes.txt''
           (example_state\<lparr>auditLog := [''5000 - download by alice on file notes.txt'' @ [CHR 0x0A]]\<rparr>)
   \<and> view_route example_env alice_header ''notes.txt'' example_state
       = view_handler alice_payload ''notes.txt''
           (example_state\<lparr>auditLog := [''5000 - view by alice on file notes.txt'' @ [CHR 0x0A]]\<rparr>)
   \<and> upload_route example_env alice_header (Some (''x.bin'', [0xFF])) example_state
       = (upload_handler (Some ''5000-x.bin''),
          example_state\<lparr>files := [(''/srv/app/home/alice/uploads/notes.txt'', [0x68, 0x69]),
                                   (''/srv/app/home/alice/uploads/5000-x.bin'', [0xFF])],
                         auditLog := [''5000 - upload by alice on file 5000-x.bin'' @ [CHR 0x0A]]\<rparr>)
   \<and> upload_route example_env alice_header (Some ([CHR 0x00], [0xFF])) example_state
       = (Errored TypeError, example_state)
   \<and> snd (files_route example_env alice_header example_state) = example_state"
proof -
  have w: "auditWritable example_state" by (simp add: example_state_def)
  have n: "''notes.txt'' \<noteq> []" by simp
  have m: "auditMessage example_env 5000 action (Some f) ''alice''
           = ''5000 - '' @ action @ '' by alice on file '' @ f @ [CHR 0x0A]" for action f
    by (simp add: auditMessage_def example_env_def string_of_nat.simps)
  have st: "now example_state = 5000" "auditLog example_state = []" "uid alice_payload = ''alice''"
    by (simp_all add: example_state_def alice_payload_def)
  from file_operations_audited [OF alice_verified, of "''notes.txt''" "Some (''x.bin'', [0xFF])"
      "Some ''5000-x.bin''" _ "Some ([CHR 0x00], [0xFF])" TypeError]
    example_upload example_upload_nul
  show ?thesis
    using alice_verified w n by (simp add: m st)
qed

section \<open>Failure of the audit write\<close>

lemma login_rejected:
  assumes "u \<noteq> []" and "p \<noteq> []" and "authenticate e u p = Inl error"
  shows "login e (Some u) (Some p) st = login_failure e u error st"
  using assms by (simp add: login_def)

lemma provision_keeps: "auditWritable (snd (provision d st)) = auditWritable st"
  by (auto simp: provision_def mkdirp_def writeFile_def split: sum.splits if_splits)

lemma login_success_blocked:
  assumes "\<not> auditWritable st"
  shows "fst (login_success e usr st)
         = Sent (if user_uid usr = None \<or> user_uid usr = Some []
                 then \<lparr>status = 500, body = Json [(''error'', JStr ''User UID is undefined'')]\<rparr>
                 else \<lparr>status = 500, body = Json [(''error'', JStr ''Internal Server Error'')]\<rparr>)"
proof (cases "user_uid usr")
  case None
  then show ?thesis by (simp add: login_success_def)
next
  case (Some x)
  show ?thesis
  proof (cases "x = []")
    case True
    with Some show ?thesis by (simp add: login_success_def)
  next
    case False
    obtain err st1 where pr: "provision (path_join [dirname e, ''/home/'', x]) st = (err, st1)"
      by (cases "provision (path_join [dirname e, ''/home/'', x]) st")
    with provision_keeps [of "path_join [dirname e, ''/home/'', x]" st] assms
    have "\<not> auditWritable st1" by simp
    with Some False pr show ?thesis
      by (cases err) (simp_all add: login_success_def Let_def audit_def internalServerError_def)
  qed
qed

text \<open>
  Claim C6 says that a failed audit write is swallowed and the operation's own result is
  returned unchanged.  \<^verbatim>\<open>audit\<close> has no \<^verbatim>\<open>try\<close>: the exception of \<^verbatim>\<open>appendFileSync\<close> leaves
  \<^verbatim>\<open>auditMiddleware\<close>, and the handler never runs.  \<^verbatim>\<open>alice\<close>'s delete of her own file
  succeeds when the audit file is writable and neither deletes nor responds when it is not.
\<close>

theorem audit_failure_blocks_delete:
  "fst (delete_route example_env alice_header ''notes.txt'' example_state)
     = Sent \<lparr>status = 200, body = Json [(''message'', JStr ''File deleted successfully'')]\<rparr>
   \<and> delete_route example_env alice_header ''notes.txt'' (example_state\<lparr>auditWritable := False\<rparr>)
     = (Errored AuditAppendFailed, example_state\<lparr>auditWritable := False\<rparr>)"
proof -
  have p: "filePath alice_payload ''notes.txt'' = ''/srv/app/home/alice/uploads/notes.txt''"
    by (simp add: filePath_def alice_payload_def path_eval)
  have ok: "fst (delete_route example_env alice_header ''notes.txt'' example_state)
     = Sent \<lparr>status = 200, body = Json [(''message'', JStr ''File deleted successfully'')]\<rparr>"
    by (simp add: delete_route_def audited_route_def alice_verified auditMiddleware_def audit_def
        delete_handler_def p unlink_def nul_free_def)
       (simp add: example_state_def)
  have down: "delete_route example_env alice_header ''notes.txt''
                (example_state\<lparr>auditWritable := False\<rparr>)
     = (Errored AuditAppendFailed, example_state\<lparr>auditWritable := False\<rparr>)"
    by (simp add: delete_route_def audited_route_def alice_verified auditMiddleware_def audit_def)
  from ok down show ?thesis by simp
qed

text \<open>
  C6, as the code has it.  When the audit write fails: delete, download and view end with
  the exception and the state unchanged; upload ends with the exception after the file has
  been stored; a rejected login ends with the exception, so no failure response is sent; an
  accepted login answers with status 500 and an error body, \<^verbatim>\<open>Internal Server Error\<close> when
  the user entry has a uid, in place of the response that carries the token.
\<close>

theorem audit_failure_not_swallowed:
  assumes "\<not> auditWritable st"
  shows "(jwtMiddleware e (now st) h = Inr user \<longrightarrow>
            delete_route e h param st = (Errored AuditAppendFailed, st)
          \<and> download_route e h param st = (Errored AuditAppendFailed, st)
          \<and> view_route e h param st = (Errored AuditAppendFailed, st)
          \<and> (upload_single user part st = Inr (file, st1) \<longrightarrow>
                upload_route e h part st = (Errored AuditAppendFailed, st1)))
       \<and> (u \<noteq> [] \<and> p \<noteq> [] \<and> authenticate e u p = Inl error \<longrightarrow>
            login e (Some u) (Some p) st = (Errored AuditAppendFailed, st))
       \<and> (u' \<noteq> [] \<and> p' \<noteq> [] \<and> authenticate e u' p' = Inr usr \<longrightarrow>
            fst (login e (Some u') (Some p') st)
              = Sent (if user_uid usr = None \<or> user_uid usr = Some []
                      then \<lparr>status = 500,
                            body = Json [(''error'', JStr ''User UID is undefined'')]\<rparr>
                      else \<lparr>status = 500,
                            body = Json [(''error'', JStr ''Internal Server Error'')]\<rparr>))"
proof -
  have routes: "jwtMiddleware e (now st) h = Inr user \<longrightarrow>
            delete_route e h param st = (Errored AuditAppendFailed, st)
          \<and> download_route e h param st = (Errored AuditAppendFailed, st)
          \<and> view_route e h param st = (Errored AuditAppendFailed, st)
          \<and> (upload_single user part st = Inr (file, st1) \<longrightarrow>
                upload_route e h part st = (Errored AuditAppendFailed, st1))"
    using assms
    by (simp add: delete_route_def download_route_def view_route_def audited_route_blocked
        upload_route_blocked)
  have rejected: "u \<noteq> [] \<and> p \<noteq> [] \<and> authenticate e u p = Inl error \<longrightarrow>
            login e (Some u) (Some p) st = (Errored AuditAppendFailed, st)"
    using assms by (simp add: login_rejected login_failure_def audit_def)
  have accepted: "u' \<noteq> [] \<and> p' \<noteq> [] \<and> authenticate e u' p' = Inr usr \<longrightarrow>
            fst (login e (Some u') (Some p') st)
              = Sent (if user_uid usr = None \<or> user_uid usr = Some []
                      then \<lparr>status = 500,
                            body = Json [(''error'', JStr ''User UID is undefined'')]\<rparr>
                      else \<lparr>status = 500,
                            body = Json [(''error'', JStr ''Internal Server Error'')]\<rparr>)"
    using login_success_blocked [OF assms, of e usr] by (simp add: login_def)
  from routes rejected accepted show ?thesis by blast
qed

lemma alice_verified_down:
  "jwtMiddleware example_env (now audit_down_state) alice_header = Inr alice_payload"
  using alice_verified by (simp add: audit_down_state_def)

lemma example_upload_down:
  "upload_single alice_payload (Some (''x.bin'', [0xFF])) audit_down_state
   = Inr (Some ''5000-x.bin'',
          audit_down_state\<lparr>files := [(''/srv/app/home/alice/uploads/notes.txt'', [0x68, 0x69]),
                                      (''/srv/app/home/alice/uploads/5000-x.bin'', [0xFF])]\<rparr>)"
proof -
  have f: "filename (now audit_down_state) (basename ''x.bin'') = ''5000-x.bin''"
    by (simp add: filename_def string_of_nat.simps basename_def audit_down_state_def
        example_state_def)
  have p: "path_join [destination alice_payload, ''5000-x.bin'']
           = ''/srv/app/home/alice/uploads/5000-x.bin''"
    by (simp add: destination_def alice_payload_def path_eval)
  have q: "fs_parent ''/srv/app/home/alice/uploads/5000-x.bin'' = ''/srv/app/home/alice/uploads''"
    by (simp add: fs_parent_def)
  have b: "basename ''x.bin'' \<noteq> []" by (simp add: basename_def)
  show ?thesis
    by (simp add: upload_single_def Let_def b f p writeFile_def q trailingSeparator_def nul_free_def)
       (simp add: audit_down_state_def example_state_def)
qed

text \<open>The statement for \<^verbatim>\<open>alice\<close> in the example deployment with the audit file down.\<close>

theorem audit_failure_not_swallowed_witness:
  "\<not> auditWritable audit_down_state
   \<and> jwtMiddleware example_env (now audit_down_state) alice_header = Inr alice_payload
   \<and> upload_single alice_payload (Some (''x.bin'', [0xFF])) audit_down_state
       = Inr (Some ''5000-x.bin'',
              audit_down_state\<lparr>files := [(''/srv/app/home/alice/uploads/notes.txt'', [0x68, 0x69]),
                                          (''/srv/app/home/alice/uploads/5000-x.bin'', [0xFF])]\<rparr>)
   \<and> ''alice'' \<noteq> [] \<and> ''wrong-pw'' \<noteq> [] \<and> ''correct-pw'' \<noteq> []
   \<and> authenticate example_env ''alice'' ''wrong-pw'' = Inl ''InvalidCredentialsError''
   \<and> authenticate example_env ''alice'' ''correct-pw''
       = Inr \<lparr>user_dn = ''uid=alice,dc=example'', user_uid = Some ''alice''\<rparr>
   \<and> delete_route example_env alice_header ''notes.txt'' audit_down_state
       = (Errored AuditAppendFailed, audit_down_state)
   \<and> download_route example_env alice_header ''notes.txt'' audit_down_state
       = (Errored AuditAppendFailed, audit_down_state)
   \<and> view_route example_env alice_header ''notes.txt'' audit_down_state
       = (Errored AuditAppendFailed, audit_down_state)
   \<and> upload_route example_env alice_header (Some (''x.bin'', [0xFF])) audit_down_state
       = (Errored AuditAppendFailed,
          audit_down_state\<lparr>files := [(''/srv/app/home/alice/uploads/notes.txt'', [0x68, 0x69]),
                                      (''/srv/app/home/alice/uploads/5000-x.bin'', [0xFF])]\<rparr>)
   \<and> login example_env (Some ''alice'') (Some ''wrong-pw'') audit_down_state
       = (Errored AuditAppendFailed, audit_down_state)
   \<and> fst (login example_env (Some ''alice'') (Some ''correct-pw'') audit_down_state)
       = Sent \<lparr>status = 500, body = Json [(''error'', JStr ''Internal Server Error'')]\<rparr>"
proof -
  have w: "\<not> auditWritable audit_down_state"
    by (simp add: audit_down_state_def example_state_def)
  have a1: "authenticate example_env ''alice'' ''wrong-pw'' = Inl ''InvalidCredentialsError''"
    by (simp add: example_env_def)
  have a2: "authenticate example_env ''alice'' ''correct-pw''
            = Inr \<lparr>user_dn = ''uid=alice,dc=example'', user_uid = Some ''alice''\<rparr>"
    by (simp add: example_env_def)
  have n: "''alice'' \<noteq> []" "''wrong-pw'' \<noteq> []" "''correct-pw'' \<noteq> []" by simp_all
  from audit_failure_not_swallowed [OF w, of example_env alice_header alice_payload "''notes.txt''"
      "Some (''x.bin'', [0xFF])" "Some ''5000-x.bin''" _ "''alice''" "''wrong-pw''"
      "''InvalidCredentialsError''" "''alice''" "''correct-pw''"
      "\<lparr>user_dn = ''uid=alice,dc=example'', user_uid = Some ''alice''\<rparr>"]
    w alice_verified_down example_upload_down a1 a2 n
  show ?thesis by simp
qed

section \<open>Deleting a file that is not there\<close>




section \<open>Rejected logins\<close>

text \<open>
  Claim C8 says that every login attempt with invalid credentials returns failure and
  appends exactly one audit entry for a failed login, keyed by the attempted username.
  When the audit file cannot be written, \<^verbatim>\<open>alice\<close>'s attempt with a wrong password appends
  nothing and returns no failure: the exception leaves the handler.  And the username goes
  into the text unchanged: an attempted username with a newline in it appends two lines,
  the second one made up by the caller.
\<close>

theorem rejected_login_not_one_entry:
  "login example_env (Some ''alice'') (Some ''wrong-pw'') audit_down_state
     = (Errored AuditAppendFailed, audit_down_state)
   \<and> auditLog (snd (login example_env (Some (''eve'' @ [CHR 0x0A] @ ''0 - login by alice''))
                      (Some ''x'') example_state))
     = [''5000 - failed login by eve'' @ [CHR 0x0A] @ ''0 - login by alice'' @ [CHR 0x0A]]
   \<and> \<not> single_line (''5000 - failed login by eve'' @ [CHR 0x0A] @ ''0 - login by alice''
                       @ [CHR 0x0A])"
proof -
  have a: "authenticate example_env ''alice'' ''wrong-pw'' = Inl ''InvalidCredentialsError''"
    by (simp add: example_env_def)
  have w: "\<not> auditWritable audit_down_state"
    by (simp add: audit_down_state_def example_state_def)
  have d: "login example_env (Some ''alice'') (Some ''wrong-pw'') audit_down_state
     = (Errored AuditAppendFailed, audit_down_state)"
    by (simp add: login_def a login_failure_def audit_def w)
  have b: "authenticate example_env (''eve'' @ [CHR 0x0A] @ ''0 - login by alice'') ''x''
           = Inl ''LdapAuthenticationError: user not found or usernameAttribute is wrong''"
    by (simp add: example_env_def)
  have l: "auditLog (snd (login example_env (Some (''eve'' @ [CHR 0x0A] @ ''0 - login by alice''))
                      (Some ''x'') example_state))
     = [''5000 - failed login by eve'' @ [CHR 0x0A] @ ''0 - login by alice'' @ [CHR 0x0A]]"
    using b
    by (simp add: login_def login_failure_def audit_def auditMessage_def)
       (simp add: example_state_def example_env_def string_of_nat.simps)
  have s: "\<not> single_line (''5000 - failed login by eve'' @ [CHR 0x0A] @ ''0 - login by alice''
                       @ [CHR 0x0A])"
    by (simp add: single_line_def)
  from d l s show ?thesis by simp
qed

lemma single_line_text:
  "single_line (t @ m @ u @ [CHR 0x0A])
   \<longleftrightarrow> CHR 0x0A \<notin> set t \<and> CHR 0x0A \<notin> set m \<and> CHR 0x0A \<notin> set u"
  by (simp add: single_line_def butlast_append)

text \<open>
  C8, as the code has it: for a login attempt with a non-empty username and password that
  the directory service rejects, when the audit write succeeds, login returns failure
  (status 500, \<^verbatim>\<open>success: false\<close>) and appends exactly one text, the timestamp,
  \<^verbatim>\<open>failed login by\<close> and the attempted username, which is exactly one line of the audit
  file if and only if neither the timestamp nor the username holds a newline; when the audit
  write fails, nothing is appended and the exception leaves the handler.
\<close>

theorem failed_login_audited:
  assumes "u \<noteq> []" and "p \<noteq> []" and "authenticate e u p = Inl error"
  shows "login e (Some u) (Some p) st
         = (if auditWritable st
            then (Sent \<lparr>status = 500,
                        body = Json [(''success'', JBool False),
                                     (''message'', JStr ''Authentication failed''),
                                     (''error'', JStr error)]\<rparr>,
                  st\<lparr>auditLog := auditLog st
                        @ [toISOString e (now st) @ '' - failed login by '' @ u @ [CHR 0x0A]]\<rparr>)
            else (Errored AuditAppendFailed, st))
       \<and> (single_line (toISOString e (now st) @ '' - failed login by '' @ u @ [CHR 0x0A])
          \<longleftrightarrow> CHR 0x0A \<notin> set (toISOString e (now st)) \<and> CHR 0x0A \<notin> set u)"
proof -
  have "login e (Some u) (Some p) st
         = (if auditWritable st
            then (Sent \<lparr>status = 500,
                        body = Json [(''success'', JBool False),
                                     (''message'', JStr ''Authentication failed''),
                                     (''error'', JStr error)]\<rparr>,
                  st\<lparr>auditLog := auditLog st
                        @ [toISOString e (now st) @ '' - failed login by '' @ u @ [CHR 0x0A]]\<rparr>)
            else (Errored AuditAppendFailed, st))"
    using assms by (simp add: login_rejected login_failure_def audit_def auditMessage_def)
  moreover have "single_line (toISOString e (now st) @ '' - failed login by '' @ u @ [CHR 0x0A])
          \<longleftrightarrow> CHR 0x0A \<notin> set (toISOString e (now st)) \<and> CHR 0x0A \<notin> set u"
    using single_line_text [of "toISOString e (now st)" "'' - failed login by ''" u] by simp
  ultimately show ?thesis by blast
qed

text \<open>The statement for \<^verbatim>\<open>alice\<close> with a wrong password, the audit file writable.\<close>

theorem failed_login_audited_witness:
  "''alice'' \<noteq> [] \<and> ''wrong-pw'' \<noteq> []
   \<and> authenticate example_env ''alice'' ''wrong-pw'' = Inl ''InvalidCredentialsError''
   \<and> login example_env (Some ''alice'') (Some ''wrong-pw'') example_state
       = (Sent \<lparr>status = 500,
                body = Json [(''success'', JBool False),
                             (''message'', JStr ''Authentication failed''),
                             (''error'', JStr ''InvalidCredentialsError'')]\<rparr>,
          example_state\<lparr>auditLog := [''5000 - failed login by alice'' @ [CHR 0x0A]]\<rparr>)
   \<and> single_line (''5000 - failed login by alice'' @ [CHR 0x0A])"
proof -
  have n: "''alice'' \<noteq> []" "''wrong-pw'' \<noteq> []" by simp_all
  have a: "authenticate example_env ''alice'' ''wrong-pw'' = Inl ''InvalidCredentialsError''"
    by (simp add: example_env_def)
  have w: "auditWritable example_state" by (simp add: example_state_def)
  have t: "toISOString example_env (now example_state) = ''5000''"
    by (simp add: example_env_def string_of_nat.simps example_state_def)
  have l: "auditLog example_state = []" by (simp add: example_state_def)
  from failed_login_audited [OF n a, of example_state] n a w show ?thesis by (simp add: t l)
qed

text \<open>
  Claim C2 says that a rejected login gets a client error status and a generic message
  that never echoes the directory service's error and does not tell a wrong username from
  a wrong password.  The failure branch of \<^verbatim>\<open>/api/login\<close> sends status 500 and puts
  \<^verbatim>\<open>authResult.error.toString()\<close> into the body: a wrong password for \<^verbatim>\<open>alice\<close> and an unknown
  user \<^verbatim>\<open>carol\<close> get different bodies, each with the directory service's words.
\<close>

theorem rejected_login_echoes_directory_error:
  "fst (login example_env (Some ''alice'') (Some ''wrong-pw'') example_state)
     = Sent \<lparr>status = 500,
             body = Json [(''success'', JBool False),
                          (''message'', JStr ''Authentication failed''),
                          (''error'', JStr ''InvalidCredentialsError'')]\<rparr>
   \<and> fst (login example_env (Some ''carol'') (Some ''wrong-pw'') example_state)
     = Sent \<lparr>status = 500,
             body = Json [(''success'', JBool False),
                          (''message'', JStr ''Authentication failed''),
                          (''error'',
                           JStr ''LdapAuthenticationError: user not found or usernameAttribute is wrong'')]\<rparr>"
proof -
  have a: "authenticate example_env ''alice'' ''wrong-pw'' = Inl ''InvalidCredentialsError''"
    by (simp add: example_env_def string_of_nat.simps)
  have c: "authenticate example_env ''carol'' ''wrong-pw''
           = Inl ''LdapAuthenticationError: user not found or usernameAttribute is wrong''"
    by (simp add: example_env_def string_of_nat.simps)
  have w: "auditWritable example_state" by (simp add: example_state_def)
  show ?thesis
    by (simp add: login_def a c login_failure_def audit_def w)
qed

text \<open>
  C2, as the code has it: a login attempt that the directory service rejects is answered
  with status 500, the fixed message \<^verbatim>\<open>Authentication failed\<close>, and a field \<^verbatim>\<open>error\<close> that
  holds the directory service's error; when the audit write fails, the exception leaves the
  handler instead.
\<close>

theorem rejected_login_response:
  assumes "u \<noteq> []" and "p \<noteq> []" and "authenticate e u p = Inl error"
  shows "fst (login e (Some u) (Some p) st)
         = (if auditWritable st
            then Sent \<lparr>status = 500,
                       body = Json [(''success'', JBool False),
                                    (''message'', JStr ''Authentication failed''),
                                    (''error'', JStr error)]\<rparr>
            else Errored AuditAppendFailed)"
  using assms by (simp add: login_rejected login_failure_def audit_def)

text \<open>The statement for the unknown user \<^verbatim>\<open>mallory\<close>.\<close>

theorem rejected_login_response_witness:
  "''mallory'' \<noteq> [] \<and> ''guess'' \<noteq> []
   \<and> authenticate example_env ''mallory'' ''guess''
       = Inl ''LdapAuthenticationError: user not found or usernameAttribute is wrong''
   \<and> fst (login example_env (Some ''mallory'') (Some ''guess'') example_state)
       = Sent \<lparr>status = 500,
               body = Json [(''success'', JBool False),
                            (''message'', JStr ''Authentication failed''),
                            (''error'',
                             JStr ''LdapAuthenticationError: user not found or usernameAttribute is wrong'')]\<rparr>"
proof -
  have n: "''mallory'' \<noteq> []" "''guess'' \<noteq> []" by simp_all
  have a: "authenticate example_env ''mallory'' ''guess''
           = Inl ''LdapAuthenticationError: user not found or usernameAttribute is wrong''"
    by (simp add: example_env_def string_of_nat.simps)
  have w: "auditWritable example_state" by (simp add: example_state_def)
  from rejected_login_response [OF n a, of example_state] n a w show ?thesis by simp
qed

section \<open>Resolved paths and stored names\<close>

lemma path_join_render:
  assumes "filter (\<lambda>a. a \<noteq> []) parts \<noteq> []"
  shows "path_join parts
         = render (abs_of parts) (trailingSeparator (join_sep (filter (\<lambda>a. a \<noteq> []) parts)))
             (join_stack parts)"
    and "stack_ok (\<not> abs_of parts) (join_stack parts)"
proof -
  let ?j = "join_sep (filter (\<lambda>a. a \<noteq> []) parts)"
  have ne: "?j \<noteq> []" using assms by (intro join_sep_nonempty) auto
  have ns: "normalizeString (\<not> isAbsolute ?j) ?j = join_stack parts"
    by (simp add: normalizeString_def join_stack_def abs_of_def split_join_parts [OF assms]
        fold_step_skip_empty)
  show "path_join parts = render (abs_of parts) (trailingSeparator ?j) (join_stack parts)"
    using assms ne ns by (simp add: path_join_def normalize_path_def abs_of_def Let_def)
  have "stack_ok (\<not> isAbsolute ?j) (normalizeString (\<not> isAbsolute ?j) ?j)"
    by (rule stack_ok_normalizeString)
  then show "stack_ok (\<not> abs_of parts) (join_stack parts)"
    by (simp add: ns abs_of_def)
qed

lemma join_sep_last_nonempty: "segs \<noteq> [] \<Longrightarrow> last segs \<noteq> [] \<Longrightarrow> join_sep segs \<noteq> []"
  by (induction segs rule: join_sep.induct) simp_all

lemma last_join_sep: "segs \<noteq> [] \<Longrightarrow> last segs \<noteq> [] \<Longrightarrow> last (join_sep segs) = last (last segs)"
proof (induction segs rule: join_sep.induct)
  case 1
  then show ?case by simp
next
  case (2 s)
  then show ?case by simp
next
  case (3 s t ss)
  then have "join_sep (t # ss) \<noteq> []" by (intro join_sep_last_nonempty) simp_all
  with 3 show ?case by simp
qed

lemma render_untrailed:
  assumes "stack_ok (\<not> a) res" and "\<not> trailingSeparator (render a t res)"
  shows "render a t res = render a False res"
proof (cases t)
  case False
  then show ?thesis by simp
next
  case True
  show ?thesis
  proof (cases "res = []")
    case True
    with \<open>t\<close> assms(2) show ?thesis
      by (cases a) (simp_all add: render_def trailingSeparator_def)
  next
    case False
    with \<open>t\<close> have "trailingSeparator (render a t res)"
      by (simp add: render_def trailingSeparator_def)
    with assms(2) show ?thesis by simp
  qed
qed

lemma path_resolve_render:
  assumes "stack_ok (\<not> a) res"
  shows "path_resolve (render a t res) = render a False res"
proof -
  from isAbsolute_render [OF assms, of t]
  have ab: "isAbsolute (render a t res) = a" by simp
  show ?thesis
    by (simp add: path_resolve_def ab normalizeString_def fold_split_render [OF assms])
qed

lemma path_resolve_path_join:
  assumes "\<not> trailingSeparator (path_join parts)"
  shows "path_resolve (path_join parts) = path_join parts"
proof (cases "filter (\<lambda>a. a \<noteq> []) parts = []")
  case True
  then show ?thesis
    by (simp add: path_join_def path_resolve_def normalizeString_def seg_step_def render_def
        isAbsolute_def)
next
  case False
  note r = path_join_render [OF False]
  from assms have "\<not> trailingSeparator (render (abs_of parts)
      (trailingSeparator (join_sep (filter (\<lambda>a. a \<noteq> []) parts))) (join_stack parts))"
    by (simp add: r(1) [symmetric])
  from render_untrailed [OF _ this] r(2)
  show ?thesis by (simp add: r(1) path_resolve_render [OF r(2)])
qed

lemma path_join_last:
  assumes "filter (\<lambda>a. a \<noteq> []) xs \<noteq> []" and "simple_name f"
  shows "last (split_sep (path_join (xs @ [f]))) = f"
proof -
  let ?fx = "filter (\<lambda>a. a \<noteq> []) xs"
  from assms(2) have f: "f \<noteq> []" "CHR ''/'' \<notin> set f" by (simp_all add: simple_name_def)
  then have lf: "last f \<noteq> CHR ''/''" by (metis last_in_set)
  have fl: "filter (\<lambda>a. a \<noteq> []) (xs @ [f]) = ?fx @ [f]" using f by simp
  have ne: "filter (\<lambda>a. a \<noteq> []) (xs @ [f]) \<noteq> []" using f by simp
  have "last (join_sep (?fx @ [f])) = last f"
    using f by (subst last_join_sep) simp_all
  then have tr: "\<not> trailingSeparator (join_sep (filter (\<lambda>a. a \<noteq> []) (xs @ [f])))"
    using lf f by (simp add: trailingSeparator_def)
  have js: "join_stack (xs @ [f]) = f # join_stack xs"
    using assms(2) by (simp add: join_stack_append [OF assms(1)] step_simple)
  from path_join_render [OF ne] tr js
  have pj: "path_join (xs @ [f]) = render (abs_of (xs @ [f])) False (f # join_stack xs)"
    and ok: "stack_ok (\<not> abs_of (xs @ [f])) (f # join_stack xs)"
    by simp_all
  show ?thesis
    by (simp add: pj split_render [OF ok])
qed

lemma path_join_nonempty: "path_join parts \<noteq> []"
  by (simp add: path_join_def normalize_nonempty Let_def)

lemma string_of_nat_digits:
  "string_of_nat n \<noteq> [] \<and> set (string_of_nat n) \<subseteq> set ''0123456789''"
proof (induction n rule: string_of_nat.induct)
  case (1 n)
  show ?case
  proof (cases "n < 10")
    case True
    then have "''0123456789'' ! n \<in> set ''0123456789''" by (intro nth_mem) simp
    with True show ?thesis by (subst (1 2) string_of_nat.simps) simp
  next
    case False
    have "n mod 10 < 10" by simp
    then have "''0123456789'' ! (n mod 10) \<in> set ''0123456789''" by (intro nth_mem) simp
    with False 1 show ?thesis by (subst (1 2) string_of_nat.simps) simp
  qed
qed

lemma basename_no_slash: "CHR ''/'' \<notin> set (basename p)"
proof -
  have "CHR ''/'' \<notin> set (takeWhile (\<lambda>c. c \<noteq> CHR ''/'' \<and> c \<noteq> CHR 0x5C) (rev p))"
    by (auto dest: set_takeWhileD)
  then show ?thesis by (simp add: basename_def Let_def)
qed

lemma filename_stored:
  "simple_name (filename t (basename name)) \<and> \<not> dotfile (filename t (basename name))"
proof -
  from string_of_nat_digits [of t] obtain c cs where
    s: "string_of_nat t = c # cs" and d: "set (c # cs) \<subseteq> set ''0123456789''"
    by (cases "string_of_nat t") auto
  from d have c: "c \<noteq> CHR ''.''" and sl: "CHR ''/'' \<notin> set (c # cs)" by auto
  have fn: "filename t (basename name) = c # cs @ ''-'' @ basename name"
    by (simp add: filename_def s)
  have "CHR ''/'' \<notin> set (filename t (basename name))"
    using sl basename_no_slash [of name] by (simp add: fn)
  with c show ?thesis
    by (simp add: simple_name_def dotfile_def fn)
qed

section \<open>Upload, then download or view\<close>

lemma utf8_decode_ascii: "list_all (\<lambda>b. unat b < 0x80) X \<Longrightarrow> utf8_decode X = map unat X"
  by (induction X) simp_all

lemma filename_nonempty: "filename t name \<noteq> []"
  by (simp add: filename_def)

lemma filePath_stored: "filePath user (filename t name) = path_join [destination user, filename t name]"
proof -
  have "path_join (path_join [homeDirectory user, ''uploads''] # [filename t name])
        = path_join ([homeDirectory user, ''uploads''] @ [filename t name])"
    by (rule path_join_nested) (simp_all add: filename_nonempty)
  then show ?thesis by (simp add: filePath_def destination_def)
qed

lemma upload_route_sent:
  assumes "jwtMiddleware e (now st) h = Inr user"
    and "upload_route e h (Some (name, X)) st = (Sent r, st1)"
  shows "files st1 = AList.update (path_join [destination user, filename (now st) (basename name)])
                       X (files st)
         \<and> nul_free (path_join [destination user, filename (now st) (basename name)])
         \<and> \<not> trailingSeparator (path_join [destination user, filename (now st) (basename name)])
         \<and> r = \<lparr>status = 200,
                 body = Json [(''message'', JStr ''File uploaded successfully''),
                              (''filename'', JStr (filename (now st) (basename name)))]\<rparr>"
proof (cases "basename name = []")
  case True
  with assms show ?thesis
    by (simp add: upload_route_def upload_single_def Let_def auditMiddleware_def audit_def
        upload_handler_def split: if_splits)
next
  case False
  show ?thesis
  proof (cases "writeFile False (path_join [destination user, filename (now st) (basename name)]) X st")
    case (Inl err)
    with assms False show ?thesis by (simp add: upload_route_def upload_single_def Let_def)
  next
    case (Inr st')
    note k = writeFile_keeps [OF Inr]
    from assms False Inr k show ?thesis
      by (auto simp: upload_route_def upload_single_def Let_def auditMiddleware_def audit_def
          upload_handler_def split: if_splits)
  qed
qed

lemma stored_path_served:
  assumes "\<not> trailingSeparator (path_join [destination user, filename t (basename name)])"
  shows "path_resolve (filePath user (filename t (basename name)))
           = path_join [destination user, filename t (basename name)]
         \<and> \<not> dotfile (last (split_sep (path_join [destination user, filename t (basename name)])))"
proof -
  have "last (split_sep (path_join ([destination user] @ [filename t (basename name)])))
        = filename t (basename name)"
    using filename_stored [of t name]
    by (intro path_join_last) (simp_all add: destination_def path_join_nonempty)
  with filename_stored [of t name] path_resolve_path_join [OF assms] show ?thesis
    by (simp add: filePath_stored)
qed

text \<open>
  Claim C9 says that uploading any bytes \<open>X\<close> and then downloading or viewing the stored
  filename yields exactly \<open>X\<close>.  View reads the file as \<^verbatim>\<open>"utf8"\<close> text: the one-byte files
  \<^verbatim>\<open>FF\<close> and \<^verbatim>\<open>FE\<close> both come back as the single code point U+FFFD.
\<close>

lemma example_upload_route:
  "upload_route example_env alice_header (Some (''x.bin'', X)) example_state
   = (Sent \<lparr>status = 200,
            body = Json [(''message'', JStr ''File uploaded successfully''),
                         (''filename'', JStr ''5000-x.bin'')]\<rparr>,
      example_state\<lparr>files := [(''/srv/app/home/alice/uploads/notes.txt'', [0x68, 0x69]),
                               (''/srv/app/home/alice/uploads/5000-x.bin'', X)],
                     auditLog := [''5000 - upload by alice on file 5000-x.bin'' @ [CHR 0x0A]]\<rparr>)"
proof -
  have w: "auditWritable example_state" by (simp add: example_state_def)
  show ?thesis
    by (simp add: upload_route_logged [OF alice_verified w example_upload] upload_handler_def
        auditMessage_def)
       (simp add: example_state_def example_env_def string_of_nat.simps alice_payload_def)
qed

lemma example_view:
  "fst (view_route example_env alice_header ''5000-x.bin''
         (snd (upload_route example_env alice_header (Some (''x.bin'', X)) example_state)))
   = Sent \<lparr>status = 200, body = Json [(''content'', JText (utf8_decode X))]\<rparr>"
proof -
  let ?st1 = "example_state\<lparr>files := [(''/srv/app/home/alice/uploads/notes.txt'', [0x68, 0x69]),
                               (''/srv/app/home/alice/uploads/5000-x.bin'', X)],
                     auditLog := [''5000 - upload by alice on file 5000-x.bin'' @ [CHR 0x0A]]\<rparr>"
  have v: "jwtMiddleware example_env (now ?st1) alice_header = Inr alice_payload"
    using alice_verified by simp
  have w: "auditWritable ?st1" by (simp add: example_state_def)
  have p: "filePath alice_payload ''5000-x.bin'' = ''/srv/app/home/alice/uploads/5000-x.bin''"
    by (simp add: filePath_def alice_payload_def path_eval)
  have n: "''5000-x.bin'' \<noteq> []" by simp
  show ?thesis
    unfolding example_upload_route snd_conv view_route_def audited_route_logged [OF v w n]
    by (simp add: view_handler_def p readFile_def nul_free_def)
qed

theorem view_replaces_ill_formed_bytes:
  "fst (view_route example_env alice_header ''5000-x.bin''
         (snd (upload_route example_env alice_header (Some (''x.bin'', [0xFF])) example_state)))
     = Sent \<lparr>status = 200, body = Json [(''content'', JText [0xFFFD])]\<rparr>
   \<and> fst (view_route example_env alice_header ''5000-x.bin''
         (snd (upload_route example_env alice_header (Some (''x.bin'', [0xFE])) example_state)))
     = Sent \<lparr>status = 200, body = Json [(''content'', JText [0xFFFD])]\<rparr>"
  by (simp add: example_view lead_def)

text \<open>
  C9, as the code has it.  A caller whose token passes \<^verbatim>\<open>jwtMiddleware\<close> uploads \<open>X\<close> in a
  part with the filename \<open>name\<close> and gets the stored filename, made of the clock value and
  the \<^verbatim>\<open>originalname\<close> that the parser takes from \<open>name\<close>; later, with the stored files
  unchanged, the token still accepted and the audit file writable, download of that
  filename yields exactly \<open>X\<close>, and view yields the UTF-8 decoding of \<open>X\<close>, which is \<open>X\<close>
  itself, code point for byte, when every byte of \<open>X\<close> is below 128.
\<close>

theorem upload_then_read:
  assumes "jwtMiddleware e (now st) h = Inr user"
    and "upload_route e h (Some (name, X)) st = (Sent r, st1)"
    and "files st2 = files st1" and "auditWritable st2"
    and "jwtMiddleware e (now st2) h = Inr user"
  shows "r = \<lparr>status = 200,
              body = Json [(''message'', JStr ''File uploaded successfully''),
                           (''filename'', JStr (filename (now st) (basename name)))]\<rparr>
       \<and> fst (download_route e h (filename (now st) (basename name)) st2)
           = Sent \<lparr>status = 200, body = Attachment X\<rparr>
       \<and> fst (view_route e h (filename (now st) (basename name)) st2)
           = Sent \<lparr>status = 200, body = Json [(''content'', JText (utf8_decode X))]\<rparr>
       \<and> (list_all (\<lambda>b. unat b < 0x80) X \<longrightarrow> utf8_decode X = map unat X)"
proof -
  let ?f = "filename (now st) (basename name)"
  let ?P = "path_join [destination user, ?f]"
  from upload_route_sent [OF assms(1,2)] have
    f: "files st1 = AList.update ?P X (files st)"
    and nf: "nul_free ?P" and nt: "\<not> trailingSeparator ?P"
    and r: "r = \<lparr>status = 200,
              body = Json [(''message'', JStr ''File uploaded successfully''),
                           (''filename'', JStr ?f)]\<rparr>"
    by simp_all
  from stored_path_served [OF nt] have
    rs: "path_resolve (filePath user ?f) = ?P" and nd: "\<not> dotfile (last (split_sep ?P))"
    by simp_all
  from f assms(3) have "map_of (files st2) ?P = Some X"
    by (simp add: update_conv')
  with nf have rd: "readFile ?P (st2\<lparr>auditLog := l\<rparr>) = Inr X" for l
    by (simp add: readFile_def)
  have d: "fst (download_route e h ?f st2) = Sent \<lparr>status = 200, body = Attachment X\<rparr>"
    by (simp add: download_route_def audited_route_logged [OF assms(5) assms(4) filename_nonempty]
        download_handler_def rs nf nd rd)
  have v: "fst (view_route e h ?f st2)
           = Sent \<lparr>status = 200, body = Json [(''content'', JText (utf8_decode X))]\<rparr>"
    by (simp add: view_route_def audited_route_logged [OF assms(5) assms(4) filename_nonempty]
        view_handler_def filePath_stored rd)
  from r d v utf8_decode_ascii show ?thesis by blast
qed

text \<open>The statement for \<^verbatim>\<open>alice\<close> uploading the two bytes of \<^verbatim>\<open>hi\<close> as \<^verbatim>\<open>x.bin\<close>.\<close>

theorem upload_then_read_witness:
  "jwtMiddleware example_env (now example_state) alice_header = Inr alice_payload
   \<and> upload_route example_env alice_header (Some (''x.bin'', [0x68, 0x69])) example_state
       = (Sent \<lparr>status = 200,
                body = Json [(''message'', JStr ''File uploaded successfully''),
                             (''filename'', JStr ''5000-x.bin'')]\<rparr>,
          example_state\<lparr>files := [(''/srv/app/home/alice/uploads/notes.txt'', [0x68, 0x69]),
                                   (''/srv/app/home/alice/uploads/5000-x.bin'', [0x68, 0x69])],
                         auditLog := [''5000 - upload by alice on file 5000-x.bin'' @ [CHR 0x0A]]\<rparr>)
   \<and> auditWritable example_state
   \<and> list_all (\<lambda>b. unat b < 0x80) [0x68, 0x69 :: byte]
   \<and> fst (download_route example_env alice_header ''5000-x.bin''
            (example_state\<lparr>files := [(''/srv/app/home/alice/uploads/notes.txt'', [0x68, 0x69]),
                                     (''/srv/app/home/alice/uploads/5000-x.bin'', [0x68, 0x69])]\<rparr>))
       = Sent \<lparr>status = 200, body = Attachment [0x68, 0x69]\<rparr>
   \<and> fst (view_route example_env alice_header ''5000-x.bin''
            (example_state\<lparr>files := [(''/srv/app/home/alice/uploads/notes.txt'', [0x68, 0x69]),
                                     (''/srv/app/home/alice/uploads/5000-x.bin'', [0x68, 0x69])]\<rparr>))
       = Sent \<lparr>status = 200, body = Json [(''content'', JText [0x68, 0x69])]\<rparr>"
proof -
  let ?st2 = "example_state\<lparr>files := [(''/srv/app/home/alice/uploads/notes.txt'', [0x68, 0x69]),
                                     (''/srv/app/home/alice/uploads/5000-x.bin'', [0x68, 0x69])]\<rparr>"
  have w: "auditWritable ?st2" "auditWritable example_state" by (simp_all add: example_state_def)
  have v: "jwtMiddleware example_env (now ?st2) alice_header = Inr alice_payload"
    using alice_verified by simp
  have a: "list_all (\<lambda>b. unat b < 0x80) [0x68, 0x69 :: byte]" by simp
  have f: "filename (now example_state) (basename ''x.bin'') = ''5000-x.bin''"
    by (simp add: filename_def string_of_nat.simps basename_def example_state_def)
  from upload_then_read [OF alice_verified example_upload_route _ w(1) v, of "[0x68, 0x69]"]
    alice_verified example_upload_route [of "[0x68, 0x69]"] w(2) a
  show ?thesis by (simp add: f)
qed

section \<open>The storage root in the token\<close>








end
